theory Spec2Isabelle
  imports Main "HOL-Library.AList" "HOL-Library.Char_ord" "HOL-Library.List_Lexorder"
    "HOL-Library.Multiset"
begin

section \<open>Python strings and the library functions the runner calls\<close>

text \<open>
  A Python \<^verbatim>\<open>str\<close> is a \<^typ>\<open>string\<close>; each \<^typ>\<open>char\<close> stands for one code point
  below 256. Paths are POSIX paths. The functions of this section are the library calls of
  \<^verbatim>\<open>pf_shell.py\<close> and \<^verbatim>\<open>pf_polyglot.py\<close>: \<^verbatim>\<open>str.startswith\<close>, \<^verbatim>\<open>in\<close>, \<^verbatim>\<open>str.join\<close>,
  \<^verbatim>\<open>str.strip\<close>, \<^verbatim>\<open>str.lower\<close>, \<^verbatim>\<open>shlex.quote\<close>, \<^verbatim>\<open>shlex.split\<close>, \<^verbatim>\<open>re.match\<close> on the one
  pattern used, \<^verbatim>\<open>str.format\<close> on named fields, \<^verbatim>\<open>os.path.isabs\<close> and \<^verbatim>\<open>os.path.join\<close>.
\<close>

definition startswith :: "string \<Rightarrow> string \<Rightarrow> bool" where
  "startswith s p = (take (length p) s = p)"

definition endswith :: "string \<Rightarrow> string \<Rightarrow> bool" where
  "endswith s p = (length p \<le> length s \<and> drop (length s - length p) s = p)"

text \<open>\<^verbatim>\<open>p in s\<close>: \<open>p\<close> occurs in \<open>s\<close> as a contiguous run of characters.\<close>

fun py_in :: "string \<Rightarrow> string \<Rightarrow> bool" where
  "py_in p [] = (p = [])"
| "py_in p (c # cs) = (startswith (c # cs) p \<or> py_in p cs)"

fun join :: "string \<Rightarrow> string list \<Rightarrow> string" where
  "join sep [] = []"
| "join sep [x] = x"
| "join sep (x # y # ys) = x @ sep @ join sep (y # ys)"

text \<open>\<^verbatim>\<open>str.isspace\<close> and \<^verbatim>\<open>str.lower\<close> on the code points below 256.\<close>

definition isspace :: "char \<Rightarrow> bool" where
  "isspace c = (let n = (of_char c :: nat)
     in (9 \<le> n \<and> n \<le> 13) \<or> (28 \<le> n \<and> n \<le> 32) \<or> n = 133 \<or> n = 160)"

definition strip :: "string \<Rightarrow> string" where
  "strip s = rev (dropWhile isspace (rev (dropWhile isspace s)))"

definition lower_char :: "char \<Rightarrow> char" where
  "lower_char c = (let n = (of_char c :: nat)
     in if (65 \<le> n \<and> n \<le> 90) \<or> (192 \<le> n \<and> n \<le> 222 \<and> n \<noteq> 215) then char_of (n + 32) else c)"

definition lower :: "string \<Rightarrow> string" where
  "lower s = map lower_char s"

subsection \<open>shlex.quote\<close>

text \<open>
  \<^verbatim>\<open>_find_unsafe = re.compile(r'[^\w@%+=:,./-]', re.ASCII).search\<close>: a character is safe when it
  is an ASCII letter, digit or underscore, or one of \<^verbatim>\<open>@%+=:,./-\<close>.
\<close>

definition word_char :: "char \<Rightarrow> bool" where
  "word_char c = ((CHR ''a'' \<le> c \<and> c \<le> CHR ''z'') \<or> (CHR ''A'' \<le> c \<and> c \<le> CHR ''Z'')
     \<or> (CHR ''0'' \<le> c \<and> c \<le> CHR ''9'') \<or> c = CHR ''_'')"

definition safe_char :: "char \<Rightarrow> bool" where
  "safe_char c = (word_char c \<or> c \<in> set ''@%+=:,./-'')"

definition squote :: char where
  "squote = CHR 0x27"

definition dquote :: char where
  "dquote = CHR 0x22"

definition backslash :: char where
  "backslash = CHR 0x5C"

definition replace_char :: "char \<Rightarrow> string \<Rightarrow> string \<Rightarrow> string" where
  "replace_char old new s = concat (map (\<lambda>c. if c = old then new else [c]) s)"

definition shlex_quote :: "string \<Rightarrow> string" where
  "shlex_quote s =
     (if s = [] then [squote, squote]
      else if list_all safe_char s then s
      else [squote] @ replace_char squote [squote, dquote, squote, dquote, squote] s @ [squote])"

subsection \<open>shlex.split\<close>

text \<open>
  \<^verbatim>\<open>shlex.split(s)\<close> builds a POSIX-mode lexer with \<^verbatim>\<open>whitespace_split = True\<close> and no
  commenters, and lists its tokens. The lexer's \<^verbatim>\<open>state\<close> is \<^verbatim>\<open>None\<close> (\<open>AtEnd\<close>), \<^verbatim>\<open>' '\<close>
  (\<open>InWhitespace\<close>), \<^verbatim>\<open>'a'\<close> (\<open>InWord\<close>), a quote character (\<open>InQuotes\<close>) or the escape
  character (\<open>InEscape\<close>). \<open>read_token\<close> is one call of \<^verbatim>\<open>shlex.read_token\<close>: its arguments are
  the lexer's state, the locals \<^verbatim>\<open>escapedstate\<close> and \<^verbatim>\<open>quoted\<close>, the token read so far and the rest
  of the input stream; it returns the token (\<open>None\<close> for end of input), the new state and the
  rest of the stream, or the \<^verbatim>\<open>ValueError\<close> it raises. With \<^verbatim>\<open>whitespace_split\<close> every character
  that is no whitespace, quote or escape joins the token, so the word-character test of the
  library merges with its last branch.
\<close>

datatype lex_state = AtEnd | InWhitespace | InWord | InQuotes char | InEscape

datatype shlex_error = NoClosingQuotation | NoEscapedCharacter

definition whitespace :: string where
  "whitespace = [CHR '' '', CHR 0x09, CHR 0x0D, CHR 0x0A]"

definition quotes :: string where
  "quotes = [squote, dquote]"

definition escapedquotes :: string where
  "escapedquotes = [dquote]"

definition token_result :: "bool \<Rightarrow> string \<Rightarrow> string option" where
  "token_result quoted tok = (if \<not> quoted \<and> tok = [] then None else Some tok)"

fun read_token :: "lex_state \<Rightarrow> lex_state \<Rightarrow> bool \<Rightarrow> string \<Rightarrow> string
    \<Rightarrow> shlex_error + (string option \<times> lex_state \<times> string)" where
  "read_token AtEnd esc quoted tok inp = Inr (token_result quoted [], AtEnd, drop 1 inp)"
| "read_token InWhitespace esc quoted tok [] = Inr (token_result quoted tok, AtEnd, [])"
| "read_token InWhitespace esc quoted tok (c # cs) =
     (if c \<in> set whitespace then
        (if tok \<noteq> [] \<or> quoted then Inr (token_result quoted tok, InWhitespace, cs)
         else read_token InWhitespace esc quoted tok cs)
      else if c = backslash then read_token InEscape InWord quoted tok cs
      else if c \<in> set quotes then read_token (InQuotes c) esc quoted tok cs
      else read_token InWord esc quoted [c] cs)"
| "read_token (InQuotes q) esc quoted tok [] = Inl NoClosingQuotation"
| "read_token (InQuotes q) esc quoted tok (c # cs) =
     (if c = q then read_token InWord esc True tok cs
      else if c = backslash \<and> q \<in> set escapedquotes
        then read_token InEscape (InQuotes q) True tok cs
      else read_token (InQuotes q) esc True (tok @ [c]) cs)"
| "read_token InEscape esc quoted tok [] = Inl NoEscapedCharacter"
| "read_token InEscape esc quoted tok (c # cs) =
     read_token esc esc quoted
       ((case esc of
           InQuotes q \<Rightarrow> if c \<noteq> backslash \<and> c \<noteq> q then tok @ [backslash] else tok
         | _ \<Rightarrow> tok) @ [c]) cs"
| "read_token InWord esc quoted tok [] = Inr (token_result quoted tok, AtEnd, [])"
| "read_token InWord esc quoted tok (c # cs) =
     (if c \<in> set whitespace then
        (if tok \<noteq> [] \<or> quoted then Inr (token_result quoted tok, InWhitespace, cs)
         else read_token InWhitespace esc quoted tok cs)
      else if c \<in> set quotes then read_token (InQuotes c) esc quoted tok cs
      else if c = backslash then read_token InEscape InWord quoted tok cs
      else read_token InWord esc quoted (tok @ [c]) cs)"

lemma read_token_consumes:
  "read_token st esc quoted tok inp = Inr (r, st', rest) \<Longrightarrow>
     length rest < length inp \<or> (inp = [] \<and> rest = [] \<and> st' = AtEnd)"
proof (induction st esc quoted tok inp rule: read_token.induct)
  case (1 esc quoted tok inp)
  then show ?case by (cases inp) auto
qed (auto split: if_splits)

lemma read_token_AtEnd: "read_token AtEnd esc False tok inp = Inr (r, st', rest) \<Longrightarrow> r = None"
  by (simp add: token_result_def)

text \<open>
  The iteration of \<^verbatim>\<open>list(lex)\<close>: \<^verbatim>\<open>read_token\<close> is called, each time with fresh locals, until
  it returns \<^verbatim>\<open>None\<close>.
\<close>

function shlex_tokens :: "lex_state \<Rightarrow> string \<Rightarrow> shlex_error + string list" where
  "shlex_tokens st inp =
     (case read_token st InWhitespace False [] inp of
        Inl e \<Rightarrow> Inl e
      | Inr (None, st', rest) \<Rightarrow> Inr []
      | Inr (Some tok, st', rest) \<Rightarrow>
          (case shlex_tokens st' rest of Inl e \<Rightarrow> Inl e | Inr toks \<Rightarrow> Inr (tok # toks)))"
  by pat_completeness auto

termination shlex_tokens
  apply (relation "measure (\<lambda>(st, inp). 2 * length inp + (if st = AtEnd then 0 else 1))")
   apply simp
  apply (auto dest: read_token_consumes read_token_AtEnd)
  done

declare shlex_tokens.simps [simp del]

definition shlex_split :: "string \<Rightarrow> shlex_error + string list" where
  "shlex_split s = shlex_tokens InWhitespace s"

definition shlex_message :: "shlex_error \<Rightarrow> string" where
  "shlex_message e =
     (case e of NoClosingQuotation \<Rightarrow> ''No closing quotation''
              | NoEscapedCharacter \<Rightarrow> ''No escaped character'')"

section \<open>Dictionaries and errors\<close>

text \<open>
  A \<^verbatim>\<open>dict\<close> from strings to strings is an association list in insertion order:
  \<^verbatim>\<open>d[k] = v\<close> is \<^const>\<open>AList.update\<close> (an existing key keeps its place, a new key goes last), and
  \<^verbatim>\<open>d.update(e)\<close> stores the items of \<open>e\<close> one after the other.
\<close>

type_synonym env = "(string \<times> string) list"

definition dict_update :: "env \<Rightarrow> env \<Rightarrow> env" where
  "dict_update d e = fold (\<lambda>(k, v). AList.update k v) e d"

text \<open>
  The exceptions of \<^verbatim>\<open>pf_exceptions\<close> as values. \<open>PFExecutionError\<close> carries its message, command,
  environment and suggestion; \<open>PFSyntaxError\<close> its message, file path and suggestion. \<open>ValueError\<close>
  is a \<^verbatim>\<open>shlex\<close> failure that no handler catches, \<open>FormatError\<close> an exception of
  \<^verbatim>\<open>str.format\<close>, \<open>OtherError\<close> any other exception that propagates.
\<close>

datatype format_error =
    KeyError string | IndexError | TooManyDigits | SingleBrace | UnclosedField | FieldNotModelled

datatype pf_error =
    PFExecutionError string "string option" "env option" "string option"
  | PFSyntaxError string "string option" "string option"
  | ValueError string
  | FormatError format_error
  | OtherError string

section \<open>pf\_shell.py\<close>

subsection \<open>parse\_shell\_command\<close>

text \<open>
  \<^verbatim>\<open>re.match(r'^[A-Za-z_][A-Za-z0-9_]*$', key)\<close>. In Python \<^verbatim>\<open>$\<close> matches at the end of the
  string and also just before a newline that ends the string.
\<close>

definition ident_start :: "char \<Rightarrow> bool" where
  "ident_start c = ((CHR ''a'' \<le> c \<and> c \<le> CHR ''z'') \<or> (CHR ''A'' \<le> c \<and> c \<le> CHR ''Z'')
     \<or> c = CHR ''_'')"

fun ident_rest :: "string \<Rightarrow> bool" where
  "ident_rest [] = True"
| "ident_rest [c] = (word_char c \<or> c = CHR 0x0A)"
| "ident_rest (c # cs) = (word_char c \<and> ident_rest cs)"

definition re_match_identifier :: "string \<Rightarrow> bool" where
  "re_match_identifier key = (case key of [] \<Rightarrow> False | c # cs \<Rightarrow> ident_start c \<and> ident_rest cs)"

text \<open>\<^verbatim>\<open>key, value = token.split('=', 1)\<close>, for a token that contains \<^verbatim>\<open>=\<close>.\<close>

definition split_key :: "string \<Rightarrow> string" where
  "split_key token = takeWhile (\<lambda>c. c \<noteq> CHR ''='') token"

definition split_value :: "string \<Rightarrow> string" where
  "split_value token = drop 1 (dropWhile (\<lambda>c. c \<noteq> CHR ''='') token)"

text \<open>
  The loop over \<^verbatim>\<open>enumerate(tokens)\<close>: an assignment is stored and the loop goes on; the first
  other token ends it with \<^verbatim>\<open>remaining_tokens = tokens[i:]\<close>.
\<close>

definition is_env_assignment :: "string \<Rightarrow> bool" where
  "is_env_assignment token =
     (CHR ''='' \<in> set token \<and> \<not> startswith token ''-'' \<and> re_match_identifier (split_key token))"

fun scan_assignments :: "env \<Rightarrow> string list \<Rightarrow> env \<times> string list" where
  "scan_assignments env_vars [] = (env_vars, [])"
| "scan_assignments env_vars (token # tokens) =
     (if CHR ''='' \<in> set token \<and> \<not> startswith token ''-'' then
        (if re_match_identifier (split_key token)
         then scan_assignments (AList.update (split_key token) (split_value token) env_vars) tokens
         else (env_vars, token # tokens))
      else (env_vars, token # tokens))"

definition parse_shell_command :: "string \<Rightarrow> pf_error + (env \<times> string)" where
  "parse_shell_command cmd_line =
     (case shlex_split cmd_line of
        Inl e \<Rightarrow> Inl (PFExecutionError (''Failed to parse shell command: '' @ shlex_message e)
                   (Some cmd_line) None
                   (Some ''Check for unclosed quotes or invalid escape sequences''))
      | Inr tokens \<Rightarrow>
          (case scan_assignments [] tokens of
             (env_vars, remaining_tokens) \<Rightarrow>
               Inr (env_vars,
                    if remaining_tokens \<noteq> [] then join '' '' (map shlex_quote remaining_tokens)
                    else [])))"

subsection \<open>build\_shell\_command\<close>

text \<open>
  \<^verbatim>\<open>all_env = {}; if task_env: all_env.update(task_env); all_env.update(env_vars)\<close>, the merge
  that \<^verbatim>\<open>build_shell_command\<close>, \<^verbatim>\<open>_build_secure_command_args\<close> and the echo of
  \<^verbatim>\<open>execute_shell_command\<close> each write out.
\<close>

definition merge_env :: "env \<Rightarrow> env option \<Rightarrow> env \<Rightarrow> env" where
  "merge_env base task_env env_vars =
     dict_update
       (case task_env of None \<Rightarrow> base
        | Some t \<Rightarrow> if t \<noteq> [] then dict_update base t else base)
       env_vars"

definition env_exports :: "env \<Rightarrow> string list" where
  "env_exports all_env = map (\<lambda>(k, v). ''export '' @ k @ ''='' @ shlex_quote v) all_env"

definition truthy :: "string option \<Rightarrow> bool" where
  "truthy s = (case s of None \<Rightarrow> False | Some x \<Rightarrow> x \<noteq> [])"

definition build_shell_command :: "env \<Rightarrow> string \<Rightarrow> env option \<Rightarrow> bool \<Rightarrow> string option \<Rightarrow> string" where
  "build_shell_command env_vars command task_env sudo sudo_user =
     (let exports = env_exports (merge_env [] task_env env_vars);
          full_command = (if exports \<noteq> [] then join ''; '' exports @ ''; '' @ command else command)
      in if sudo then
           (if truthy sudo_user
            then ''sudo -u '' @ shlex_quote (the sudo_user) @ '' -H bash -lc '' @ shlex_quote full_command
            else ''sudo bash -lc '' @ shlex_quote full_command)
         else full_command)"

subsection \<open>\_has\_shell\_metacharacters and \_build\_secure\_command\_args\<close>

definition shell_chars :: "string list" where
  "shell_chars =
     [''|'', ''>'', ''<'', ''&'', '';'', [CHR 0x60], ''$'',
      ''&&'', ''||'', ''>>'', ''<<'', ''2>'', ''2>&1'',
      ''*'', ''?'', ''['', '']'', ''{'', ''}'',
      ''~'', ''('', '')'',
      [CHR 0x0A]]"

definition has_shell_metacharacters :: "string \<Rightarrow> bool" where
  "has_shell_metacharacters cmd = list_ex (\<lambda>pat. py_in pat cmd) shell_chars"

definition build_secure_command_args ::
    "string \<Rightarrow> env \<Rightarrow> env option \<Rightarrow> bool \<Rightarrow> string option \<Rightarrow> pf_error + string list" where
  "build_secure_command_args command env_vars task_env sudo sudo_user =
     (let needs_shell_features = has_shell_metacharacters command in
      if sudo then
        (let sudo_args = [''sudo''] @ (if truthy sudo_user then [''-u'', the sudo_user] else [])
                         @ [''-H'']
         in if needs_shell_features then
              (let all_env = merge_env [] task_env env_vars;
                   full_command =
                     (if all_env \<noteq> [] then join ''; '' (env_exports all_env) @ ''; '' @ command
                      else command)
               in Inr (sudo_args @ [''bash'', ''-c'', full_command]))
            else
              (case shlex_split command of
                 Inr cmd_args \<Rightarrow> Inr (sudo_args @ cmd_args)
               | Inl e \<Rightarrow>
                   Inl (PFExecutionError
                          (''Failed to parse sudo command arguments: '' @ shlex_message e)
                          (Some command) None
                          (Some ''Check for unclosed quotes or invalid escape sequences''))))
      else if needs_shell_features then Inr [''bash'', ''-c'', command]
      else
        (case shlex_split command of
           Inr cmd_args \<Rightarrow> Inr cmd_args
         | Inl e \<Rightarrow> Inr [''bash'', ''-c'', command]))"

subsection \<open>execute\_shell\_command\<close>

text \<open>
  What the function does to the world is a list of effects, in order: a line printed, a local
  process spawned with its argument vector and environment (\<^verbatim>\<open>subprocess.Popen(cmd_args,
  shell=False, env=proc_env)\<close> followed by \<^verbatim>\<open>wait\<close>), a command run over the connection. The
  outcome of a spawn and of a remote run is a parameter: \<open>popen\<close> and the connection answer with
  an exit code or an exception. A \<^verbatim>\<open>SubprocessError\<close> is caught and wrapped; any other exception of
  the spawn propagates.
\<close>

datatype effect = Print string | Popen "string list" env | ConnectionRun string

datatype proc_result = Exited int | SubprocessError string | SpawnError string

datatype remote_result = RemoteExited int | RemoteException string

definition display_command :: "env \<Rightarrow> string \<Rightarrow> bool \<Rightarrow> string" where
  "display_command display_env command sudo =
     (let display_cmd =
            (if display_env \<noteq> []
             then join '' '' (map (\<lambda>(k, v). k @ ''='' @ shlex_quote v) display_env) @ '' '' @ command
             else command)
      in if sudo then ''(sudo) '' @ display_cmd else display_cmd)"

definition execute_shell_command ::
    "(string list \<Rightarrow> env \<Rightarrow> proc_result) \<Rightarrow> env \<Rightarrow> string \<Rightarrow> env option \<Rightarrow> bool \<Rightarrow> string option
      \<Rightarrow> (string \<Rightarrow> remote_result) option \<Rightarrow> string \<Rightarrow> effect list \<times> (pf_error + int)" where
  "execute_shell_command popen environ cmd_line task_env sudo sudo_user connection pfx =
     (case parse_shell_command cmd_line of
        Inl e \<Rightarrow> ([], Inl e)
      | Inr (env_vars, command) \<Rightarrow>
          if command = [] then
            ([Print (pfx @ ''[warn] Empty command after parsing environment variables'')], Inr 0)
          else
            (let display_env = merge_env [] task_env env_vars;
                 display_cmd = display_command display_env command sudo;
                 echo = Print (pfx @ ''$ '' @ display_cmd)
             in case connection of
                  None \<Rightarrow>
                    (let proc_env = merge_env environ task_env env_vars in
                     case build_secure_command_args command env_vars task_env sudo sudo_user of
                       Inl e \<Rightarrow> ([echo], Inl e)
                     | Inr cmd_args \<Rightarrow>
                         (case popen cmd_args proc_env of
                            Exited rc \<Rightarrow> ([echo, Popen cmd_args proc_env], Inr rc)
                          | SubprocessError m \<Rightarrow>
                              ([echo, Popen cmd_args proc_env],
                               Inl (PFExecutionError (''Failed to execute subprocess: '' @ m)
                                      (Some display_cmd) (Some display_env)
                                      (Some ''Check that the command exists and is executable'')))
                          | SpawnError m \<Rightarrow> ([echo, Popen cmd_args proc_env], Inl (OtherError m))))
                | Some run \<Rightarrow>
                    (let full_command =
                           build_shell_command env_vars command task_env sudo sudo_user
                     in case run full_command of
                          RemoteExited rc \<Rightarrow> ([echo, ConnectionRun full_command], Inr rc)
                        | RemoteException m \<Rightarrow>
                            ([echo, ConnectionRun full_command],
                             Inl (PFExecutionError (''Remote command execution failed: '' @ m)
                                    (Some display_cmd) (Some display_env)
                                    (Some ''Check network connectivity and remote host accessibility''))))))"

section \<open>pf\_polyglot.py\<close>

subsection \<open>str.format with named fields\<close>

text \<open>
  \<^verbatim>\<open>template.format(**mapping)\<close>, read from left to right: \<^verbatim>\<open>{{\<close> and \<^verbatim>\<open>}}\<close> are the literal
  braces, \<^verbatim>\<open>{name}\<close> is replaced by \<open>mapping[name]\<close> (\<^verbatim>\<open>KeyError\<close> when the key is missing), a
  lone \<^verbatim>\<open>}\<close> and a field that is not closed are a \<^verbatim>\<open>ValueError\<close>. The empty field \<^verbatim>\<open>{}\<close> and
  a field whose name is a decimal number ask for a positional argument that is not there
  (\<^verbatim>\<open>IndexError\<close>), unless the number is above \<^verbatim>\<open>PY_SSIZE_T_MAX\<close>, which is \<open>2^63 - 1\<close> on a
  64-bit build: then parsing the name raises \<^verbatim>\<open>ValueError\<close> (too many decimal digits). A field
  with a conversion, a format specification, an attribute, an index or a nested field is outside
  this model (\<open>FieldNotModelled\<close>); no template of the registry has one.
\<close>

definition decimal_value :: "string \<Rightarrow> nat" where
  "decimal_value ds = foldl (\<lambda>acc d. acc * 10 + (of_char d - 48)) 0 ds"

datatype fmt_mode = Literal | AfterOpen | AfterClose | InField string

fun format_scan :: "env \<Rightarrow> fmt_mode \<Rightarrow> string \<Rightarrow> format_error + string" where
  "format_scan m Literal [] = Inr []"
| "format_scan m Literal (c # cs) =
     (if c = CHR ''{'' then format_scan m AfterOpen cs
      else if c = CHR ''}'' then format_scan m AfterClose cs
      else map_sum id ((#) c) (format_scan m Literal cs))"
| "format_scan m AfterOpen [] = Inl SingleBrace"
| "format_scan m AfterOpen (c # cs) =
     (if c = CHR ''{'' then map_sum id ((#) c) (format_scan m Literal cs)
      else if c = CHR ''}'' then Inl IndexError
      else if c \<in> set ''!:.['' then Inl FieldNotModelled
      else format_scan m (InField [c]) cs)"
| "format_scan m AfterClose [] = Inl SingleBrace"
| "format_scan m AfterClose (c # cs) =
     (if c = CHR ''}'' then map_sum id ((#) c) (format_scan m Literal cs)
      else Inl SingleBrace)"
| "format_scan m (InField name) [] = Inl UnclosedField"
| "format_scan m (InField name) (c # cs) =
     (if c = CHR ''}'' then
        (if list_all (\<lambda>d. CHR ''0'' \<le> d \<and> d \<le> CHR ''9'') name then
           (if decimal_value name > 9223372036854775807 then Inl TooManyDigits
            else Inl IndexError)
         else case map_of m name of
                None \<Rightarrow> Inl (KeyError name)
              | Some v \<Rightarrow> map_sum id ((@) v) (format_scan m Literal cs))
      else if c \<in> set ''!:.[{'' then Inl FieldNotModelled
      else format_scan m (InField (name @ [c])) cs)"

definition py_format :: "string \<Rightarrow> env \<Rightarrow> format_error + string" where
  "py_format template m = format_scan m Literal template"

subsection \<open>Helper functions and the command builders\<close>

definition POLY_DELIM :: string where
  "POLY_DELIM = ''__PFY_LANG__''"

definition cmd_str :: "string list \<Rightarrow> string" where
  "cmd_str parts = join '' '' (map shlex_quote parts)"

definition poly_args :: "string list \<Rightarrow> string" where
  "poly_args args = join '' '' (map shlex_quote (filter (\<lambda>a. a \<noteq> []) args))"

definition ensure_newline :: "string \<Rightarrow> string" where
  "ensure_newline src = (if endswith src ''\<newline>'' then src else src @ ''\<newline>'')"

definition build_script_command :: "string \<Rightarrow> string \<Rightarrow> string \<Rightarrow> string list \<Rightarrow> string \<Rightarrow> string" where
  \<open>build_script_command interpreter_cmd ext code args basename =
     (let code' = ensure_newline code; arg_str = poly_args args in
        ''tmpdir=$(mktemp -d)\<newline>''
      @ ''src="$tmpdir/'' @ basename @ ext @ ''"\<newline>''
      @ ''cat <<'' @ [squote] @ POLY_DELIM @ [squote] @ '' > "$src"\<newline>''
      @ code'
      @ POLY_DELIM
      @ ''\<newline>chmod +x "$src" 2>/dev/null || true\<newline>''
      @ interpreter_cmd @ '' "$src"''
      @ (if arg_str \<noteq> [] then '' '' @ arg_str else [])
      @ ''\<newline>rc=$?\<newline>rm -rf "$tmpdir"\<newline>exit $rc\<newline>'')\<close>

definition placeholder_mapping :: env where
  \<open>placeholder_mapping =
     [(''src'', ''"$src"''), (''bin'', ''"$bin"''), (''dir'', ''"$tmpdir"''),
      (''classes'', ''"$classes"''), (''jar'', ''"$jar"'')]\<close>

text \<open>
  The text that \<^verbatim>\<open>_build_compile_command\<close> returns, given the compiler line and the runner line
  it has formatted.
\<close>

definition compile_script :: "string \<Rightarrow> string \<Rightarrow> string \<Rightarrow> string \<Rightarrow> string \<Rightarrow> string \<Rightarrow> string" where
  \<open>compile_script basename ext setup code' compiler runner =
        ''tmpdir=$(mktemp -d)\<newline>''
      @ ''src="$tmpdir/'' @ basename @ ext @ ''"\<newline>''
      @ ''bin="$tmpdir/pf_poly_bin"\<newline>''
      @ setup
      @ ''cat <<'' @ [squote] @ POLY_DELIM @ [squote] @ '' > "$src"\<newline>''
      @ code'
      @ POLY_DELIM
      @ ''\<newline>''
      @ compiler
      @ ''\<newline>rc=$?\<newline>''
      @ ''if [ $rc -eq 0 ]; then\<newline>''
      @ ''  '' @ runner @ ''\<newline>''
      @ ''  rc=$?\<newline>''
      @ ''fi\<newline>''
      @ ''rm -rf "$tmpdir"\<newline>exit $rc\<newline>''\<close>

definition build_compile_command ::
    "string \<Rightarrow> string \<Rightarrow> string \<Rightarrow> string \<Rightarrow> string list \<Rightarrow> string list \<Rightarrow> string \<Rightarrow> bool
      \<Rightarrow> format_error + string" where
  "build_compile_command ext code compiler_cmd run_cmd args setup_lines basename append_args =
     (let code' = ensure_newline code;
          arg_str = poly_args args;
          setup0 = join ''\<newline>'' setup_lines;
          setup = (if setup0 \<noteq> [] then setup0 @ ''\<newline>'' else setup0)
      in case py_format compiler_cmd placeholder_mapping of
           Inl e \<Rightarrow> Inl e
         | Inr compiler \<Rightarrow>
             (case py_format run_cmd (placeholder_mapping @ [(''args'', arg_str)]) of
                Inl e \<Rightarrow> Inl e
              | Inr runner0 \<Rightarrow>
                  (let runner = (if append_args \<and> arg_str \<noteq> [] then runner0 @ '' '' @ arg_str
                                 else runner0)
                   in Inr (compile_script basename ext setup code' compiler runner))))"

definition java_android_script :: "string \<Rightarrow> string list \<Rightarrow> string" where
  \<open>java_android_script code args =
     (let code' = ensure_newline code; arg_str = poly_args args in

       ''tmpdir=$(mktemp -d)\<newline>''
     @ ''src="$tmpdir/Main.java"\<newline>''
     @ ''classes="$tmpdir/classes"\<newline>''
     @ ''dexdir="$tmpdir/dex"\<newline>''
     @ ''mkdir -p "$classes" "$dexdir"\<newline>''
     @ ''cat <<'' @ [squote]
     @ POLY_DELIM
     @ [squote] @ '' > "$src"\<newline>''
     @ code'
     @ POLY_DELIM
     @ ''\<newline>''
     @ ''\<newline>''
     @ ''ANDROID_SDK="${ANDROID_SDK_ROOT:-${ANDROID_HOME:-}}"\<newline>''
     @ ''platform_jar="${ANDROID_PLATFORM_JAR:-}"\<newline>''
     @ ''if [ -z "$platform_jar" ] && [ -n "$ANDROID_SDK" ]; then\<newline>''
     @ ''  latest_platform=$(ls -1 "$ANDROID_SDK/platforms" 2>/dev/null | sort -V | tail -1)\<newline>''
     @ ''  if [ -n "$latest_platform" ] && [ -f "$ANDROID_SDK/platforms/$latest_platform/android.jar" ]; then\<newline>''
     @ ''    platform_jar="$ANDROID_SDK/platforms/$latest_platform/android.jar"\<newline>''
     @ ''  fi\<newline>''
     @ ''fi\<newline>''
     @ ''javac_cp=""\<newline>''
     @ ''if [ -n "$platform_jar" ] && [ -f "$platform_jar" ]; then\<newline>''
     @ ''  javac_cp="-classpath $platform_jar"\<newline>''
     @ ''fi\<newline>''
     @ ''javac $javac_cp -d "$classes" "$src"\<newline>''
     @ ''rc=$?\<newline>''
     @ ''if [ $rc -ne 0 ]; then\<newline>''
     @ ''  rm -rf "$tmpdir"\<newline>''
     @ ''  exit $rc\<newline>''
     @ ''fi\<newline>''
     @ ''\<newline>''
     @ ''d8_bin="${ANDROID_D8:-}"\<newline>''
     @ ''if [ -z "$d8_bin" ] && [ -n "$ANDROID_SDK" ]; then\<newline>''
     @ ''  latest_bt=$(ls -1 "$ANDROID_SDK/build-tools" 2>/dev/null | sort -V | tail -1)\<newline>''
     @ ''  if [ -n "$latest_bt" ] && [ -x "$ANDROID_SDK/build-tools/$latest_bt/d8" ]; then\<newline>''
     @ ''    d8_bin="$ANDROID_SDK/build-tools/$latest_bt/d8"\<newline>''
     @ ''  fi\<newline>''
     @ ''fi\<newline>''
     @ ''\<newline>''
     @ ''if [ -n "$d8_bin" ] && command -v dalvikvm >/dev/null 2>&1; then\<newline>''
     @ ''  "$d8_bin" --output "$dexdir" "$classes" >/dev/null\<newline>''
     @ ''  rc=$?\<newline>''
     @ ''  if [ $rc -eq 0 ]; then\<newline>''
     @ ''    dalvikvm -cp "$dexdir/classes.dex" Main''
     @ (if arg_str \<noteq> [] then '' '' @ arg_str else [])
     @ ''\<newline>''
     @ ''    rc=$?\<newline>''
     @ ''    rm -rf "$tmpdir"\<newline>''
     @ ''    exit $rc\<newline>''
     @ ''  fi\<newline>''
     @ ''fi\<newline>''
     @ ''\<newline>''
     @ ''(cd "$classes" && java Main''
     @ (if arg_str \<noteq> [] then '' '' @ arg_str else [])
     @ '')\<newline>''
     @ ''rc=$?\<newline>''
     @ ''rm -rf "$tmpdir"\<newline>''
     @ ''exit $rc\<newline>'')\<close>

subsection \<open>The builder factories and the language registry\<close>

text \<open>
  A registry entry is the closure that \<^verbatim>\<open>_script_profile\<close>, \<^verbatim>\<open>_compile_profile\<close> or
  \<^verbatim>\<open>_java_android_builder\<close> returns: the profile holds the arguments the closure captured
  (for a script profile the parts of the interpreter command, the extension and the basename;
  for a compile profile the extension, the compiler template, the run template, the setup
  lines, the basename and \<^verbatim>\<open>append_args\<close>), and \<open>builder\<close> is the call of the closure.
\<close>

datatype profile =
    ScriptProfile "string list" string string
  | CompileProfile string string string "string list" string bool
  | JavaAndroidProfile

definition builder :: "profile \<Rightarrow> string \<Rightarrow> string list \<Rightarrow> pf_error + string" where
  "builder p code args =
     (case p of
        ScriptProfile parts ext basename \<Rightarrow>
          Inr (build_script_command (cmd_str parts) ext code args basename)
      | CompileProfile ext compiler_cmd run_cmd setup_lines basename append_args \<Rightarrow>
          map_sum FormatError id
            (build_compile_command ext code compiler_cmd run_cmd args setup_lines basename
               append_args)
      | JavaAndroidProfile \<Rightarrow> Inr (java_android_script code args))"

definition java_openjdk_builder :: profile where
  \<open>java_openjdk_builder =
     CompileProfile ''.java'' ''javac -d {classes} {src}'' ''(cd {classes} && java Main{args})''
       [''classes="$tmpdir/classes"'', ''mkdir -p "$classes"''] ''Main'' False\<close>

definition POLYGLOT_LANGS :: "(string \<times> profile) list" where
  \<open>POLYGLOT_LANGS =
     [(''bash'',
       ScriptProfile [''bash''] (''.sh'') (''pf_poly'')),
      (''sh'',
       ScriptProfile [''sh''] (''.sh'') (''pf_poly'')),
      (''dash'',
       ScriptProfile [''dash''] (''.sh'') (''pf_poly'')),
      (''zsh'',
       ScriptProfile [''zsh''] (''.sh'') (''pf_poly'')),
      (''fish'',
       ScriptProfile [''fish''] (''.fish'') (''pf_poly'')),
      (''ksh'',
       ScriptProfile [''ksh''] (''.sh'') (''pf_poly'')),
      (''tcsh'',
       ScriptProfile [''tcsh''] (''.csh'') (''pf_poly'')),
      (''pwsh'',
       ScriptProfile [''pwsh'', ''-NoLogo'', ''-NonInteractive'', ''-File''] (''.ps1'') (''pf_poly'')),
      (''python'',
       ScriptProfile [''python3''] (''.py'') (''pf_poly'')),
      (''node'',
       ScriptProfile [''node''] (''.js'') (''pf_poly'')),
      (''deno'',
       ScriptProfile [''deno'', ''run''] (''.ts'') (''pf_poly'')),
      (''ts-node'',
       ScriptProfile [''ts-node''] (''.ts'') (''pf_poly'')),
      (''perl'',
       ScriptProfile [''perl''] (''.pl'') (''pf_poly'')),
      (''php'',
       ScriptProfile [''php''] (''.php'') (''pf_poly'')),
      (''ruby'',
       ScriptProfile [''ruby''] (''.rb'') (''pf_poly'')),
      (''r'',
       ScriptProfile [''Rscript''] (''.R'') (''pf_poly'')),
      (''julia'',
       ScriptProfile [''julia''] (''.jl'') (''pf_poly'')),
      (''haskell'',
       ScriptProfile [''runghc''] (''.hs'') (''pf_poly'')),
      (''ocaml'',
       ScriptProfile [''ocaml''] (''.ml'') (''pf_poly'')),
      (''elixir'',
       ScriptProfile [''elixir''] (''.exs'') (''pf_poly'')),
      (''dart'',
       ScriptProfile [''dart'', ''run''] (''.dart'') (''pf_poly'')),
      (''lua'',
       ScriptProfile [''lua''] (''.lua'') (''pf_poly'')),
      (''go'',
       ScriptProfile [''go'', ''run''] (''.go'') (''pf_poly'')),
      (''rust'',
       CompileProfile (''.rs'')
         (''rustc {src} -o {bin}'')
         (''{bin}'') [] (''pf_poly'') True),
      (''c'',
       CompileProfile (''.c'')
         (''clang -x c {src} -o {bin}'')
         (''{bin}'') [] (''pf_poly'') True),
      (''cpp'',
       CompileProfile (''.cc'')
         (''clang++ {src} -o {bin}'')
         (''{bin}'') [] (''pf_poly'') True),
      (''c-llvm'',
       CompileProfile (''.c'')
         (''clang -x c -O3 -S -emit-llvm {src} -o {bin}.ll && cat {bin}.ll'')
         (''echo '' @ [squote] @ ''(LLVM IR generated with O3 optimization)'' @ [squote]) [] (''pf_poly'') True),
      (''cpp-llvm'',
       CompileProfile (''.cc'')
         (''clang++ -O3 -S -emit-llvm {src} -o {bin}.ll && cat {bin}.ll'')
         (''echo '' @ [squote] @ ''(LLVM IR generated with O3 optimization)'' @ [squote]) [] (''pf_poly'') True),
      (''c-llvm-bc'',
       CompileProfile (''.c'')
         (''clang -x c -O3 -c -emit-llvm {src} -o {bin}.bc && llvm-dis {bin}.bc -o {bin}.ll && cat {bin}.ll'')
         (''echo '' @ [squote] @ ''(LLVM bitcode generated with O3 optimization)'' @ [squote]) [] (''pf_poly'') True),
      (''cpp-llvm-bc'',
       CompileProfile (''.cc'')
         (''clang++ -O3 -c -emit-llvm {src} -o {bin}.bc && llvm-dis {bin}.bc -o {bin}.ll && cat {bin}.ll'')
         (''echo '' @ [squote] @ ''(LLVM bitcode generated with O3 optimization)'' @ [squote]) [] (''pf_poly'') True),
      (''fortran'',
       CompileProfile (''.f90'')
         (''gfortran {src} -o {bin}'')
         (''{bin}'') [] (''pf_poly'') True),
      (''fortran-llvm'',
       CompileProfile (''.f90'')
         (''flang -O3 {src} -S -emit-llvm -o {bin}.ll && cat {bin}.ll'')
         (''echo '' @ [squote] @ ''(LLVM IR generated with O3 optimization)'' @ [squote]) [] (''pf_poly'') True),
      (''asm'',
       CompileProfile (''.s'')
         (''clang -x assembler {src} -o {bin}'')
         (''{bin}'') [] (''pf_poly'') True),
      (''zig'',
       CompileProfile (''.zig'')
         (''zig build-exe -O Debug -femit-bin={bin} {src}'')
         (''{bin}'') [] (''pf_poly'') True),
      (''nim'',
       CompileProfile (''.nim'')
         (''nim c -o:{bin} {src}'')
         (''{bin}'') [] (''pf_poly'') True),
      (''crystal'',
       CompileProfile (''.cr'')
         (''crystal build -o {bin} {src}'')
         (''{bin}'') [] (''pf_poly'') True),
      (''haskell-compile'',
       CompileProfile (''.hs'')
         (''ghc -o {bin} {src}'')
         (''{bin}'') [] (''pf_poly'') True),
      (''ocamlc'',
       CompileProfile (''.ml'')
         (''ocamlc -o {bin} {src}'')
         (''{bin}'') [] (''pf_poly'') True),
      (''java-openjdk'',
       java_openjdk_builder),
      (''java-android'',
       JavaAndroidProfile)]\<close>

definition POLYGLOT_ALIASES :: "(string \<times> string) list" where
  "POLYGLOT_ALIASES =
     [(''shell'', ''bash''),
      (''sh'', ''sh''),
      (''zshell'', ''zsh''),
      (''powershell'', ''pwsh''),
      (''ps1'', ''pwsh''),
      (''py'', ''python''),
      (''python3'', ''python''),
      (''ipython'', ''python''),
      (''javascript'', ''node''),
      (''js'', ''node''),
      (''nodejs'', ''node''),
      (''ts'', ''deno''),
      (''typescript'', ''deno''),
      (''tsnode'', ''ts-node''),
      (''c++'', ''cpp''),
      (''cxx'', ''cpp''),
      (''clang'', ''c''),
      (''clang++'', ''cpp''),
      (''g++'', ''cpp''),
      (''gcc'', ''c''),
      (''c-ir'', ''c-llvm''),
      (''c-ll'', ''c-llvm''),
      (''cpp-ir'', ''cpp-llvm''),
      (''cpp-ll'', ''cpp-llvm''),
      (''c-bc'', ''c-llvm-bc''),
      (''cpp-bc'', ''cpp-llvm-bc''),
      (''fortran-ll'', ''fortran-llvm''),
      (''fortran-ir'', ''fortran-llvm''),
      (''golang'', ''go''),
      (''rb'', ''ruby''),
      (''pl'', ''perl''),
      (''ml'', ''ocaml''),
      (''hs'', ''haskell''),
      (''fortran90'', ''fortran''),
      (''gfortran'', ''fortran''),
      (''java'', ''java-openjdk''),
      (''java-openjdk'', ''java-openjdk''),
      (''java-android-google'', ''java-android''),
      (''java-android'', ''java-android''),
      (''android-java'', ''java-android''),
      (''fishshell'', ''fish''),
      (''shellscript'', ''bash''),
      (''dashshell'', ''dash''),
      (''asm86'', ''asm'')]"

subsection \<open>Language processing\<close>

definition canonical_lang :: "string \<Rightarrow> string" where
  "canonical_lang lang_hint =
     (let lang_key = lower (strip lang_hint)
      in case map_of POLYGLOT_ALIASES lang_key of Some k \<Rightarrow> k | None \<Rightarrow> lang_key)"

text \<open>
  The file system as \<^verbatim>\<open>_extract_polyglot_source\<close> sees it: a path does not exist, or it holds
  a regular file with the text that \<^verbatim>\<open>read()\<close> returns, or it exists and \<^verbatim>\<open>open\<close> or \<^verbatim>\<open>read\<close>
  raises (a directory, no permission, bytes that are not UTF-8).
\<close>

datatype fs_entry = RegularFile string | Unreadable string

definition isabs :: "string \<Rightarrow> bool" where
  "isabs p = startswith p ''/''"

definition path_join :: "string \<Rightarrow> string \<Rightarrow> string" where
  "path_join a b =
     (if startswith b ''/'' then b
      else if a = [] \<or> endswith a ''/'' then a @ b
      else a @ ''/'' @ b)"

definition extract_polyglot_source ::
    "(string \<Rightarrow> fs_entry option) \<Rightarrow> string \<Rightarrow> string option
      \<Rightarrow> pf_error + (string \<times> string list \<times> string option)" where
  "extract_polyglot_source fs cmd base_dir =
     (case shlex_split cmd of
        Inl e \<Rightarrow> Inl (ValueError (shlex_message e))
      | Inr tokens \<Rightarrow>
          (case tokens of
             [] \<Rightarrow> Inr (cmd, [], None)
           | source_token # rest \<Rightarrow>
               if startswith source_token ''@'' \<or> startswith source_token ''file:'' then
                 (if \<not> truthy base_dir then
                    Inl (PFSyntaxError
                           ''Cannot resolve polyglot source file: no base directory available''
                           None (Some ''Ensure the Pfyfile is in a valid directory''))
                  else
                    (let rel_path = (if startswith source_token ''@'' then drop 1 source_token
                                     else drop 5 source_token);
                         full_path = (if isabs rel_path then rel_path
                                      else path_join (the base_dir) rel_path)
                     in case fs full_path of
                          None \<Rightarrow>
                            Inl (PFSyntaxError (''Polyglot source file not found: '' @ full_path)
                                   (Some full_path)
                                   (Some ''Check that the file path is correct and the file exists''))
                        | Some (Unreadable m) \<Rightarrow> Inl (OtherError m)
                        | Some (RegularFile code) \<Rightarrow>
                            Inr (code,
                                 (case rest of
                                    [] \<Rightarrow> []
                                  | t # ts \<Rightarrow> if t = ''--'' then ts else rest),
                                 Some full_path)))
               else Inr (cmd, [], None)))"

definition supported_languages :: "string list" where
  "supported_languages = sort (map fst POLYGLOT_LANGS)"

definition render_polyglot_command ::
    "(string \<Rightarrow> fs_entry option) \<Rightarrow> string option \<Rightarrow> string \<Rightarrow> string option
      \<Rightarrow> pf_error + (string option \<times> string option)" where
  "render_polyglot_command fs lang_hint cmd working_dir =
     (if \<not> truthy lang_hint then Inr (None, None)
      else
        (let lang_key = canonical_lang (the lang_hint) in
         case map_of POLYGLOT_LANGS lang_key of
           None \<Rightarrow>
             Inl (PFExecutionError
                    (''Language '' @ [squote] @ lang_key @ [squote] @ '' (from '' @ [squote]
                       @ the lang_hint @ [squote] @ '') has no builder registered'')
                    None None
                    (Some (''Supported languages: '' @ join '', '' supported_languages)))
         | Some b \<Rightarrow>
             (case extract_polyglot_source fs cmd working_dir of
                Inl e \<Rightarrow> Inl e
              | Inr (snippet, lang_args, src_path) \<Rightarrow>
                  (case builder b snippet lang_args of
                     Inl e \<Rightarrow> Inl e
                   | Inr rendered \<Rightarrow> Inr (Some rendered, Some lang_key)))))"

section \<open>pf\_task\_executor.py\<close>

text \<open>
  \<^verbatim>\<open>TaskExecutor.execute_parallel_tasks\<close>. A task run by \<^verbatim>\<open>_execute_single_task\<close> returns an exit
  code or raises; \<open>run_task\<close> gives the outcome of each task. Every task is submitted to the pool
  before any result is read. \<^verbatim>\<open>as_completed\<close> then yields each future once, in the order in
  which the tasks finish: that order is the parameter \<open>completion\<close>, a list of positions in
  \<open>tasks\<close>. The result holds the tasks submitted, the lines written to standard error and the
  value returned; \<^verbatim>\<open>ThreadPoolExecutor\<close> raises \<^verbatim>\<open>ValueError\<close> for a pool size below one.
\<close>

datatype task_outcome = Returned int | RaisedPFException string | RaisedException string

text \<open>
  One pass of the loop over \<^verbatim>\<open>as_completed\<close>: \<open>outcome_rc\<close> is the value of \<^verbatim>\<open>rc\<close> after the
  \<^verbatim>\<open>try\<close> statement (the result of the future, or 1 when it raised), \<open>outcome_stderr\<close> what the
  handlers print, and \<^verbatim>\<open>rc_total = rc_total or rc\<close> keeps a total that is not zero.
\<close>

definition outcome_rc :: "task_outcome \<Rightarrow> int" where
  "outcome_rc out =
     (case out of Returned rc \<Rightarrow> rc | RaisedPFException e \<Rightarrow> 1 | RaisedException e \<Rightarrow> 1)"

definition outcome_stderr :: "task_outcome \<Rightarrow> string list" where
  "outcome_stderr out =
     (case out of Returned rc \<Rightarrow> [] | RaisedPFException e \<Rightarrow> [e] | RaisedException e \<Rightarrow> [e])"

definition collect_result :: "string list \<times> int \<Rightarrow> task_outcome \<Rightarrow> string list \<times> int" where
  "collect_result acc out =
     (case acc of (err, rc_total) \<Rightarrow>
        (err @ outcome_stderr out, if rc_total \<noteq> 0 then rc_total else outcome_rc out))"

definition execute_parallel_tasks ::
    "('t \<Rightarrow> task_outcome) \<Rightarrow> nat list \<Rightarrow> 't list \<Rightarrow> int
      \<Rightarrow> pf_error + ('t list \<times> string list \<times> int)" where
  "execute_parallel_tasks run_task completion tasks max_workers =
     (if tasks = [] then Inr ([], [], 0)
      else if max_workers \<le> 0 then Inl (ValueError ''max_workers must be greater than 0'')
      else
        (let futures = map run_task tasks;
             collected = foldl collect_result ([], 0) (map (\<lambda>i. futures ! i) completion)
         in Inr (tasks, fst collected, snd collected)))"

section \<open>How the shell reads the rendered here-document\<close>




section \<open>The wording of the specification\<close>

text \<open>
  Two notions that the specification states in its own words, to be compared with what the
  code computes. The fixed set of shell metacharacters: pipe, redirections, the background and
  sequencing operators, backtick, dollar, the globbing and brace characters, tilde, parentheses
  and the newline.
\<close>

definition spec_metacharacters :: "char set" where
  "spec_metacharacters = set (''|><&;$*?[]{}~()'' @ [CHR 0x60, CHR 0x0A])"

text \<open>
  A token is an environment assignment when it contains \<^verbatim>\<open>=\<close>, does not begin with \<^verbatim>\<open>-\<close>, and
  the whole of its left-hand side matches \<^verbatim>\<open>[A-Za-z_][A-Za-z0-9_]*\<close>.
\<close>

definition spec_identifier :: "string \<Rightarrow> bool" where
  "spec_identifier key =
     (case key of [] \<Rightarrow> False | c # cs \<Rightarrow> ident_start c \<and> list_all word_char cs)"

definition spec_env_assignment :: "string \<Rightarrow> bool" where
  "spec_env_assignment token =
     (CHR ''='' \<in> set token \<and> \<not> startswith token ''-'' \<and> spec_identifier (split_key token))"

section \<open>Evaluation on concrete inputs\<close>

lemmas shlex_eval = shlex_split_def shlex_tokens.simps whitespace_def quotes_def
  escapedquotes_def squote_def dquote_def backslash_def token_result_def

lemmas parse_eval = parse_shell_command_def is_env_assignment_def re_match_identifier_def
  ident_start_def word_char_def safe_char_def split_key_def split_value_def startswith_def
  shlex_quote_def

section \<open>The secure executor without elevation\<close>

lemma startswith_set: "startswith s p \<Longrightarrow> set p \<subseteq> set s"
  unfolding startswith_def by (metis set_take_subset)

lemma py_in_set: "py_in p s \<Longrightarrow> set p \<subseteq> set s"
proof (induction s)
  case Nil
  then show ?case by simp
next
  case (Cons a s)
  from Cons.prems have "startswith (a # s) p \<or> py_in p s" by simp
  then show ?case
  proof
    assume "startswith (a # s) p"
    then show ?thesis by (rule startswith_set)
  next
    assume "py_in p s"
    then have "set p \<subseteq> set s" by (rule Cons.IH)
    then show ?thesis by auto
  qed
qed

lemma py_in_single: "py_in [c] s = (c \<in> set s)"
  by (induction s) (auto simp: startswith_def)

text \<open>
  The compound operators of \<^verbatim>\<open>shell_chars\<close> add nothing: a command needs shell features exactly
  when one of its characters is a metacharacter.
\<close>

lemma has_shell_metacharacters_iff:
  "has_shell_metacharacters cmd = (set cmd \<inter> spec_metacharacters \<noteq> {})"
proof
  assume "has_shell_metacharacters cmd"
  then obtain pat where p: "pat \<in> set shell_chars" "py_in pat cmd"
    by (auto simp: has_shell_metacharacters_def list_ex_iff)
  then have "set pat \<subseteq> set cmd" by (simp add: py_in_set)
  moreover have "set pat \<inter> spec_metacharacters \<noteq> {}"
    using p(1) by (auto simp: shell_chars_def spec_metacharacters_def)
  ultimately show "set cmd \<inter> spec_metacharacters \<noteq> {}" by auto
next
  assume "set cmd \<inter> spec_metacharacters \<noteq> {}"
  then obtain c where c: "c \<in> set cmd" "c \<in> spec_metacharacters" by auto
  then have "[c] \<in> set shell_chars"
    by (auto simp: shell_chars_def spec_metacharacters_def)
  moreover have "py_in [c] cmd" using c(1) by (simp add: py_in_single)
  ultimately show "has_shell_metacharacters cmd"
    by (auto simp: has_shell_metacharacters_def list_ex_iff)
qed

text \<open>
  Claim C1, as the code has it. Without elevation \<^verbatim>\<open>_build_secure_command_args\<close> returns
  \<^verbatim>\<open>['bash', '-c', command]\<close> when the command holds a metacharacter. When it holds none the
  result is the token list of \<^verbatim>\<open>shlex.split\<close> if the command tokenizes, and again
  \<^verbatim>\<open>['bash', '-c', command]\<close> if it does not (the fallback of the \<^verbatim>\<open>except ValueError\<close> branch).
\<close>

theorem build_args_without_elevation:
  "build_secure_command_args cmd env_vars task_env False sudo_user =
     (if set cmd \<inter> spec_metacharacters \<noteq> {} then Inr [''bash'', ''-c'', cmd]
      else case shlex_split cmd of
             Inr args \<Rightarrow> Inr args
           | Inl e \<Rightarrow> Inr [''bash'', ''-c'', cmd])"
  by (simp add: build_secure_command_args_def has_shell_metacharacters_iff)

theorem build_args_without_elevation_witness:
  \<open>build_secure_command_args ''ls -l "my dir"'' [] None False None
       = Inr [''ls'', ''-l'', ''my dir'']
   \<and> build_secure_command_args ''echo hi && echo bye'' [] None False None
       = Inr [''bash'', ''-c'', ''echo hi && echo bye'']\<close>
  using build_args_without_elevation [of \<open>''ls -l "my dir"''\<close> "[]" None None]
    build_args_without_elevation [of \<open>''echo hi && echo bye''\<close> "[]" None None]
  by (simp add: spec_metacharacters_def shlex_eval)

text \<open>
  Claim C1 as stated fails: the command \<^verbatim>\<open>"abc\<close> (an opening double quote that is never
  closed) holds no metacharacter and has no tokenization, and the builder answers with the
  shell invocation \<^verbatim>\<open>['bash', '-c', '"abc']\<close>, not with a direct argument vector.
\<close>

theorem unbalanced_quote_counterexample:
  \<open>set ''"abc'' \<inter> spec_metacharacters = {}
   \<and> \<not> has_shell_metacharacters ''"abc''
   \<and> shlex_split ''"abc'' = Inl NoClosingQuotation
   \<and> build_secure_command_args ''"abc'' [] None False None = Inr [''bash'', ''-c'', ''"abc'']\<close>
  by (simp add: build_secure_command_args_def has_shell_metacharacters_iff
      spec_metacharacters_def shlex_eval)

section \<open>The command parser\<close>

lemma ident_rest_iff:
  "ident_rest cs =
     (list_all word_char cs \<or> (\<exists>r. cs = r @ [CHR 0x0A] \<and> list_all word_char r))"
proof (induction cs rule: ident_rest.induct)
  case 1
  then show ?case by simp
next
  case (2 c)
  then show ?case by (auto simp: word_char_def)
next
  case (3 c v va)
  show ?case
  proof (cases "word_char c")
    case True
    then show ?thesis using 3 by (auto simp: Cons_eq_append_conv)
  next
    case False
    then show ?thesis by (auto simp: Cons_eq_append_conv)
  qed
qed

lemma scan_assignments_prefix:
  "scan_assignments env tokens =
     (fold (\<lambda>t. AList.update (split_key t) (split_value t))
        (takeWhile is_env_assignment tokens) env,
      dropWhile is_env_assignment tokens)"
  by (induction tokens arbitrary: env) (auto simp: is_env_assignment_def)

lemma spec_assignment_accepted: "spec_env_assignment t \<Longrightarrow> is_env_assignment t"
  by (auto simp: spec_env_assignment_def is_env_assignment_def spec_identifier_def
      re_match_identifier_def ident_rest_iff split: list.splits)

lemma accepted_assignment_spec:
  "is_env_assignment t \<Longrightarrow> CHR 0x0A \<notin> set (split_key t) \<Longrightarrow> spec_env_assignment t"
  by (auto simp: spec_env_assignment_def is_env_assignment_def spec_identifier_def
      re_match_identifier_def ident_rest_iff split: list.splits)

text \<open>
  Claim C2 at the input on which the code leaves it. The command line \<^verbatim>\<open>"A\n=1" echo hi\<close> (the
  first word in double quotes, with a newline before the \<^verbatim>\<open>=\<close>) has the tokens \<^verbatim>\<open>A\n=1\<close>, \<^verbatim>\<open>echo\<close>
  and \<^verbatim>\<open>hi\<close>. The left-hand side \<^verbatim>\<open>A\n\<close> is no identifier, yet \<^verbatim>\<open>re.match\<close> with \<^verbatim>\<open>$\<close> accepts
  it, and the parser returns the environment \<^verbatim>\<open>{'A\n': '1'}\<close> and the command \<^verbatim>\<open>echo hi\<close>.
\<close>

theorem parse_newline_key:
  \<open>parse_shell_command ''"A\<newline>=1" echo hi'' = Inr ([(''A\<newline>'', ''1'')], ''echo hi'')
   \<and> shlex_split ''"A\<newline>=1" echo hi'' = Inr [''A\<newline>=1'', ''echo'', ''hi'']
   \<and> \<not> spec_env_assignment ''A\<newline>=1''\<close>
  by (simp add: shlex_eval parse_eval spec_env_assignment_def spec_identifier_def)

section \<open>Empty commands\<close>

text \<open>
  Claim C9. When the command line tokenizes and every token is a leading environment
  assignment (or there is no token), \<^verbatim>\<open>execute_shell_command\<close> prints the warning and returns 0;
  the warning is its only effect, so no local process is spawned and nothing is run over the
  connection, whatever the elevation and the connection are.
\<close>

theorem all_assignments_silent_success:
  assumes "shlex_split cmd_line = Inr tokens" and "list_all is_env_assignment tokens"
  shows "execute_shell_command popen environ cmd_line task_env sudo sudo_user connection pfx =
     ([Print (pfx @ ''[warn] Empty command after parsing environment variables'')], Inr 0)"
proof -
  have "takeWhile is_env_assignment tokens = tokens" "dropWhile is_env_assignment tokens = []"
    using assms(2) by (simp_all add: list_all_iff)
  then have "\<exists>env. parse_shell_command cmd_line = Inr (env, [])"
    using assms(1) by (simp add: parse_shell_command_def scan_assignments_prefix)
  then show ?thesis by (auto simp: execute_shell_command_def)
qed

theorem all_assignments_silent_success_witness:
  "shlex_split ''A=1 B=2'' = Inr [''A=1'', ''B=2'']
   \<and> list_all is_env_assignment [''A=1'', ''B=2'']
   \<and> execute_shell_command (\<lambda>a e. Exited 1) [] ''A=1 B=2'' None True None
        (Some (\<lambda>c. RemoteExited 1)) ''> ''
      = ([Print ''> [warn] Empty command after parsing environment variables''], Inr 0)"
  using all_assignments_silent_success [of "''A=1 B=2''" "[''A=1'', ''B=2'']"
      "\<lambda>a e. Exited 1" "[]" None True None "Some (\<lambda>c. RemoteExited 1)" "''> ''"]
  by (simp add: shlex_eval parse_eval)

section \<open>Merging environments\<close>

lemma map_of_dict_update: "map_of (dict_update d e) = map_of d ++ map_of (rev e)"
proof (induction e arbitrary: d)
  case Nil
  then show ?case by (simp add: dict_update_def)
next
  case (Cons a e)
  obtain k v where a: "a = (k, v)" by (cases a)
  have "dict_update d (a # e) = dict_update (AList.update k v d) e"
    by (simp add: dict_update_def a)
  then have "map_of (dict_update d (a # e)) = map_of (AList.update k v d) ++ map_of (rev e)"
    by (simp only: Cons.IH)
  also have "\<dots> = (map_of d)(k \<mapsto> v) ++ map_of (rev e)"
    by (simp only: update_conv')
  also have "\<dots> = map_of d ++ map_of (rev (a # e))"
    by (simp add: a map_add_upd_left map_add_assoc[symmetric])
  finally show ?case .
qed

lemma distinct_dict_update: "distinct (map fst d) \<Longrightarrow> distinct (map fst (dict_update d e))"
proof (induction e arbitrary: d)
  case Nil
  then show ?case by (simp add: dict_update_def)
next
  case (Cons a e)
  obtain k v where a: "a = (k, v)" by (cases a)
  have "dict_update d (a # e) = dict_update (AList.update k v d) e"
    by (simp add: dict_update_def a)
  then show ?case using Cons by (simp add: distinct_update)
qed

lemma dict_update_append:
  "distinct (map fst e) \<Longrightarrow> fst ` set d \<inter> fst ` set e = {} \<Longrightarrow> dict_update d e = d @ e"
proof (induction e arbitrary: d)
  case Nil
  then show ?case by (simp add: dict_update_def)
next
  case (Cons a e)
  obtain k v where a: "a = (k, v)" by (cases a)
  have k: "k \<notin> fst ` set d" using Cons.prems(2) by (auto simp: a)
  have upd: "AList.update k v d = d @ [(k, v)]"
    using k by (induction d) auto
  have "dict_update d (a # e) = dict_update (d @ [(k, v)]) e"
    by (simp add: dict_update_def a upd)
  also have "\<dots> = (d @ [(k, v)]) @ e"
    using Cons.prems by (intro Cons.IH) (auto simp: a)
  finally show ?case by (simp add: a)
qed

lemma keys_dict_update:
  "distinct (map fst e) \<Longrightarrow>
     map fst (dict_update d e) = map fst d @ filter (\<lambda>k. k \<notin> fst ` set d) (map fst e)"
proof (induction e arbitrary: d)
  case Nil
  then show ?case by (simp add: dict_update_def)
next
  case (Cons a e)
  obtain k v where a: "a = (k, v)" by (cases a)
  have step: "dict_update d ((k, v) # e) = dict_update (AList.update k v d) e"
    by (simp add: dict_update_def)
  have ke: "k \<notin> fst ` set e" using Cons.prems by (auto simp: a)
  have IH: "map fst (dict_update (AList.update k v d) e)
      = map fst (AList.update k v d) @ filter (\<lambda>x. x \<notin> fst ` set (AList.update k v d)) (map fst e)"
    using Cons.prems by (intro Cons.IH) simp
  show ?case
  proof (cases "k \<in> fst ` set d")
    case True
    then have "map fst (AList.update k v d) = map fst d"
      by (simp add: update_keys)
    moreover have "fst ` set (AList.update k v d) = fst ` set d"
      using True by (auto simp: dom_update)
    ultimately show ?thesis using True by (simp add: step IH a)
  next
    case False
    then have "map fst (AList.update k v d) = map fst d @ [k]"
      by (simp add: update_keys)
    moreover have "filter (\<lambda>x. x \<notin> fst ` set (AList.update k v d)) (map fst e)
        = filter (\<lambda>x. x \<notin> fst ` set d) (map fst e)"
      using ke by (intro filter_cong) (auto simp: dom_update)
    ultimately show ?thesis using False by (simp add: step IH a)
  qed
qed

lemma join_exports:
  "xs \<noteq> [] \<Longrightarrow> join sep xs @ sep @ rest = concat (map (\<lambda>x. x @ sep) xs) @ rest"
  by (induction sep xs rule: join.induct) auto

lemma env_exports_Nil: "(env_exports e = []) = (e = [])"
  by (simp add: env_exports_def)

lemma scan_assignments_distinct:
  "distinct (map fst env) \<Longrightarrow> distinct (map fst (fst (scan_assignments env tokens)))"
  by (induction env tokens rule: scan_assignments.induct) (auto simp: distinct_update)

lemma parse_distinct:
  "parse_shell_command cmd_line = Inr (env_vars, command) \<Longrightarrow> distinct (map fst env_vars)"
  using scan_assignments_distinct [of "[]"]
  by (auto simp: parse_shell_command_def split: sum.splits prod.splits) (metis fst_conv)

lemma map_of_rev_distinct: "distinct (map fst xs) \<Longrightarrow> map_of (rev xs) = map_of xs"
  by (subst map_of_inject_set) (simp_all add: rev_map [symmetric])

lemma merge_env_lookup:
  assumes "distinct (map fst env_vars)" and "map_of env_vars k = Some v"
  shows "map_of (merge_env base task_env env_vars) k = Some v"
proof -
  have "map_of (rev env_vars) k = Some v"
    using assms by (simp add: map_of_rev_distinct)
  then show ?thesis
    by (simp add: merge_env_def map_of_dict_update map_add_Some_iff)
qed

lemma merge_env_distinct: "distinct (map fst (merge_env [] task_env env_vars))"
  by (auto simp: merge_env_def distinct_dict_update split: option.splits)

text \<open>
  Claim C10. Let the command line parse into the assignments \<open>env_vars\<close> and a command that is
  not empty, and let the key \<open>k\<close> have the value \<open>v1\<close> in the task environment and \<open>v2\<close> among
  the assignments. Every merge is the task environment stored first and the assignments stored
  over it, and gives \<open>k\<close> the value \<open>v2\<close>, whatever it starts from (the empty dictionary for
  the export string and the display, \<^verbatim>\<open>os.environ\<close> for the process environment); the merged
  dictionary has one entry for \<open>k\<close>. The remote command is the exports of the merged dictionary,
  among them \<^verbatim>\<open>export k=v2\<close>, before the command; the line echoed is the display of the merged
  dictionary; the local process is spawned with the merged process environment.
\<close>

theorem command_line_env_precedence:
  assumes "parse_shell_command cmd_line = Inr (env_vars, command)" and "command \<noteq> []"
    and "map_of task k = Some v1" and "map_of env_vars k = Some v2"
  shows "merge_env base (Some task) env_vars = dict_update (dict_update base task) env_vars
     \<and> map_of (merge_env base (Some task) env_vars) k = Some v2
     \<and> (\<forall>v. (k, v) \<in> set (merge_env [] (Some task) env_vars) \<longleftrightarrow> v = v2)
     \<and> build_shell_command env_vars command (Some task) False sudo_user
         = join ''; '' (env_exports (merge_env [] (Some task) env_vars)) @ ''; '' @ command
     \<and> ''export '' @ k @ ''='' @ shlex_quote v2
         \<in> set (env_exports (merge_env [] (Some task) env_vars))
     \<and> fst (execute_shell_command popen environ cmd_line (Some task) sudo sudo_user None pfx)
         = Print (pfx @ ''$ ''
                  @ display_command (merge_env [] (Some task) env_vars) command sudo)
           # (case build_secure_command_args command env_vars (Some task) sudo sudo_user of
                Inl e \<Rightarrow> []
              | Inr args \<Rightarrow> [Popen args (merge_env environ (Some task) env_vars)])
     \<and> fst (execute_shell_command popen environ cmd_line (Some task) sudo sudo_user
              (Some run) pfx)
         = [Print (pfx @ ''$ ''
                   @ display_command (merge_env [] (Some task) env_vars) command sudo),
            ConnectionRun (build_shell_command env_vars command (Some task) sudo sudo_user)]"
proof -
  let ?D = "merge_env [] (Some task) env_vars"
  have d: "distinct (map fst env_vars)"
    using assms(1) by (rule parse_distinct)
  have task: "task \<noteq> []" using assms(3) by auto
  have 1: "merge_env base (Some task) env_vars = dict_update (dict_update base task) env_vars"
    using task by (simp add: merge_env_def)
  have 2: "map_of (merge_env base (Some task) env_vars) k = Some v2" for base
    using d assms(4) by (rule merge_env_lookup)
  have 3: "\<forall>v. (k, v) \<in> set ?D \<longleftrightarrow> v = v2"
    using 2 [of "[]"] merge_env_distinct [of "Some task" env_vars]
    by (metis map_of_eq_Some_iff option.inject)
  have ne: "?D \<noteq> []" using 2 [of "[]"] by auto
  have 4: "build_shell_command env_vars command (Some task) False sudo_user
      = join ''; '' (env_exports ?D) @ ''; '' @ command"
    using ne by (simp add: build_shell_command_def env_exports_Nil)
  have 5: "''export '' @ k @ ''='' @ shlex_quote v2 \<in> set (env_exports ?D)"
    using 3 by (force simp: env_exports_def)
  have 6: "fst (execute_shell_command popen environ cmd_line (Some task) sudo sudo_user None pfx)
         = Print (pfx @ ''$ '' @ display_command ?D command sudo)
           # (case build_secure_command_args command env_vars (Some task) sudo sudo_user of
                Inl e \<Rightarrow> []
              | Inr args \<Rightarrow> [Popen args (merge_env environ (Some task) env_vars)])"
    using assms(1,2)
    by (simp add: execute_shell_command_def Let_def split: sum.splits proc_result.splits)
  have 7: "fst (execute_shell_command popen environ cmd_line (Some task) sudo sudo_user
              (Some run) pfx)
         = [Print (pfx @ ''$ '' @ display_command ?D command sudo),
            ConnectionRun (build_shell_command env_vars command (Some task) sudo sudo_user)]"
    using assms(1,2)
    by (simp add: execute_shell_command_def Let_def split: remote_result.splits)
  show ?thesis using 1 2 3 4 5 6 7 by blast
qed

lemma parse_port_scenario: "parse_shell_command ''PORT=8080 node server.js'' = Inr ([(''PORT'', ''8080'')], ''node server.js'')"
  by (simp add: shlex_eval parse_eval)

theorem command_line_env_precedence_witness:
  "parse_shell_command ''PORT=8080 node server.js'' = Inr ([(''PORT'', ''8080'')], ''node server.js'')
   \<and> merge_env [(''HOME'', ''/root'')] (Some [(''PORT'', ''80''), (''MODE'', ''dev'')]) [(''PORT'', ''8080'')]
       = [(''HOME'', ''/root''), (''PORT'', ''8080''), (''MODE'', ''dev'')]
   \<and> build_shell_command [(''PORT'', ''8080'')] ''node server.js'' (Some [(''PORT'', ''80''), (''MODE'', ''dev'')]) False None
       = ''export PORT=8080; export MODE=dev; node server.js''
   \<and> fst (execute_shell_command (\<lambda>a e. Exited 0) [(''HOME'', ''/root'')] ''PORT=8080 node server.js''
             (Some [(''PORT'', ''80''), (''MODE'', ''dev'')]) False None None ''> '')
       = [Print ''> $ PORT=8080 MODE=dev node server.js'',
          Popen [''node'', ''server.js''] [(''HOME'', ''/root''), (''PORT'', ''8080''), (''MODE'', ''dev'')]]"
  using command_line_env_precedence [OF parse_port_scenario, of "[(''PORT'', ''80''), (''MODE'', ''dev'')]" "''PORT''" "''80''" "''8080''"
      "[(''HOME'', ''/root'')]" None "\<lambda>a e. Exited 0" "[(''HOME'', ''/root'')]" False "''> ''"]
  by (simp add: parse_port_scenario merge_env_def dict_update_def env_exports_def shlex_quote_def safe_char_def word_char_def
      display_command_def build_secure_command_args_def has_shell_metacharacters_def shell_chars_def startswith_def shlex_eval)


section \<open>The secure executor with elevation\<close>

lemma folded_exports:
  "(if all_env \<noteq> [] then join ''; '' (env_exports all_env) @ ''; '' @ cmd else cmd)
     = concat (map (\<lambda>(k, v). ''export '' @ k @ ''='' @ shlex_quote v @ ''; '') all_env) @ cmd"
proof (cases "all_env = []")
  case True
  then show ?thesis by simp
next
  case False
  then have "env_exports all_env \<noteq> []" by (simp add: env_exports_Nil)
  then have "join ''; '' (env_exports all_env) @ ''; '' @ cmd
      = concat (map (\<lambda>x. x @ ''; '') (env_exports all_env)) @ cmd"
    by (rule join_exports)
  also have "map (\<lambda>x. x @ ''; '') (env_exports all_env)
      = map (\<lambda>(k, v). ''export '' @ k @ ''='' @ shlex_quote v @ ''; '') all_env"
    by (auto simp: env_exports_def)
  finally show ?thesis using False by simp
qed

text \<open>
  Claim C7. With elevation the argument vector is \<^verbatim>\<open>sudo\<close>, then \<^verbatim>\<open>-u user\<close> exactly when a
  user is given and not empty, then \<^verbatim>\<open>-H\<close>. For a command with a metacharacter it goes on with
  \<^verbatim>\<open>bash\<close>, \<^verbatim>\<open>-c\<close> and one string: an \<^verbatim>\<open>export k=v; \<close> for each entry of the merged
  environment, then the command. For a command without metacharacter it goes on with the tokens
  of the command (and the call raises \<open>PFExecutionError\<close> when there are none to be had), and
  the vector is the same for every environment. In the merged environment the keys of the task
  come first, then the new keys of the command line, and the command line's value wins. The
  local process gets the merged process environment.
\<close>

theorem build_args_with_elevation:
  "(set cmd \<inter> spec_metacharacters \<noteq> {} \<longrightarrow>
      build_secure_command_args cmd env_vars task_env True sudo_user
        = Inr (''sudo''
               # (case sudo_user of None \<Rightarrow> [] | Some u \<Rightarrow> if u \<noteq> [] then [''-u'', u] else [])
               @ [''-H'', ''bash'', ''-c'',
                  concat (map (\<lambda>(k, v). ''export '' @ k @ ''='' @ shlex_quote v @ ''; '')
                            (merge_env [] task_env env_vars)) @ cmd]))
   \<and> (set cmd \<inter> spec_metacharacters = {} \<longrightarrow>
        build_secure_command_args cmd env_vars task_env True sudo_user
          = (case shlex_split cmd of
               Inr args \<Rightarrow>
                 Inr (''sudo''
                      # (case sudo_user of None \<Rightarrow> []
                         | Some u \<Rightarrow> if u \<noteq> [] then [''-u'', u] else [])
                      @ ''-H'' # args)
             | Inl e \<Rightarrow>
                 Inl (PFExecutionError
                        (''Failed to parse sudo command arguments: '' @ shlex_message e)
                        (Some cmd) None
                        (Some ''Check for unclosed quotes or invalid escape sequences'')))
        \<and> build_secure_command_args cmd env_vars task_env True sudo_user
          = build_secure_command_args cmd env_vars' task_env' True sudo_user)
   \<and> (distinct (map fst task) \<and> distinct (map fst env_vars) \<longrightarrow>
        map fst (merge_env [] (Some task) env_vars)
          = map fst task @ filter (\<lambda>k. k \<notin> fst ` set task) (map fst env_vars)
        \<and> map_of (merge_env [] (Some task) env_vars) = map_of task ++ map_of env_vars)
   \<and> (parse_shell_command cmd_line = Inr (env_vars, cmd) \<and> cmd \<noteq> []
        \<and> build_secure_command_args cmd env_vars task_env True sudo_user = Inr args \<longrightarrow>
        fst (execute_shell_command popen environ cmd_line task_env True sudo_user None pfx)
          = [Print (pfx @ ''$ '' @ display_command (merge_env [] task_env env_vars) cmd True),
             Popen args (merge_env environ task_env env_vars)])"
proof -
  have t: "(if truthy sudo_user then [''-u'', the sudo_user] else [])
      = (case sudo_user of None \<Rightarrow> [] | Some u \<Rightarrow> if u \<noteq> [] then [''-u'', u] else [])"
    by (simp add: truthy_def split: option.splits)
  have 1: "set cmd \<inter> spec_metacharacters \<noteq> {} \<longrightarrow>
      build_secure_command_args cmd env_vars task_env True sudo_user
        = Inr (''sudo''
               # (case sudo_user of None \<Rightarrow> [] | Some u \<Rightarrow> if u \<noteq> [] then [''-u'', u] else [])
               @ [''-H'', ''bash'', ''-c'',
                  concat (map (\<lambda>(k, v). ''export '' @ k @ ''='' @ shlex_quote v @ ''; '')
                            (merge_env [] task_env env_vars)) @ cmd])"
    by (simp add: build_secure_command_args_def has_shell_metacharacters_iff Let_def t
        folded_exports del: append_assoc)
  have 2: "set cmd \<inter> spec_metacharacters = {} \<longrightarrow>
        build_secure_command_args cmd env_vars task_env True sudo_user
          = (case shlex_split cmd of
               Inr args \<Rightarrow>
                 Inr (''sudo''
                      # (case sudo_user of None \<Rightarrow> []
                         | Some u \<Rightarrow> if u \<noteq> [] then [''-u'', u] else [])
                      @ ''-H'' # args)
             | Inl e \<Rightarrow>
                 Inl (PFExecutionError
                        (''Failed to parse sudo command arguments: '' @ shlex_message e)
                        (Some cmd) None
                        (Some ''Check for unclosed quotes or invalid escape sequences'')))
        \<and> build_secure_command_args cmd env_vars task_env True sudo_user
          = build_secure_command_args cmd env_vars' task_env' True sudo_user"
    by (simp add: build_secure_command_args_def has_shell_metacharacters_iff Let_def t
        split: sum.splits)
  have 3: "distinct (map fst task) \<and> distinct (map fst env_vars) \<longrightarrow>
        map fst (merge_env [] (Some task) env_vars)
          = map fst task @ filter (\<lambda>k. k \<notin> fst ` set task) (map fst env_vars)
        \<and> map_of (merge_env [] (Some task) env_vars) = map_of task ++ map_of env_vars"
  proof
    assume d: "distinct (map fst task) \<and> distinct (map fst env_vars)"
    then have "dict_update [] task = task"
      using dict_update_append [of task "[]"] by simp
    then have m: "merge_env [] (Some task) env_vars = dict_update task env_vars"
      by (simp add: merge_env_def dict_update_def)
    show "map fst (merge_env [] (Some task) env_vars)
          = map fst task @ filter (\<lambda>k. k \<notin> fst ` set task) (map fst env_vars)
        \<and> map_of (merge_env [] (Some task) env_vars) = map_of task ++ map_of env_vars"
      using d by (simp add: m keys_dict_update map_of_dict_update map_of_rev_distinct)
  qed
  have 4: "parse_shell_command cmd_line = Inr (env_vars, cmd) \<and> cmd \<noteq> []
        \<and> build_secure_command_args cmd env_vars task_env True sudo_user = Inr args \<longrightarrow>
        fst (execute_shell_command popen environ cmd_line task_env True sudo_user None pfx)
          = [Print (pfx @ ''$ '' @ display_command (merge_env [] task_env env_vars) cmd True),
             Popen args (merge_env environ task_env env_vars)]"
    by (simp add: execute_shell_command_def Let_def split: proc_result.splits)
  show ?thesis using 1 2 3 4 by blast
qed

theorem build_args_with_elevation_witness:
  \<open>build_secure_command_args ''ls *.c'' [(''A'', ''1'')] (Some [(''B'', ''x y''), (''A'', ''0'')])
       True (Some ''bob'')
     = Inr [''sudo'', ''-u'', ''bob'', ''-H'', ''bash'', ''-c'',
            ''export B='' @ [squote] @ ''x y'' @ [squote] @ ''; export A=1; ls *.c'']
   \<and> build_secure_command_args ''ls -l "my dir"'' [(''A'', ''1'')]
       (Some [(''B'', ''x y''), (''A'', ''0'')]) True None
     = Inr [''sudo'', ''-H'', ''ls'', ''-l'', ''my dir'']
   \<and> map fst (merge_env [] (Some [(''B'', ''x y''), (''A'', ''0'')]) [(''A'', ''1'')])
     = [''B'', ''A'']
   \<and> fst (execute_shell_command (\<lambda>a e. Exited 0) [(''HOME'', ''/root'')] ''A=1 ls -l "my dir"''
            (Some [(''B'', ''x y''), (''A'', ''0'')]) True None None [])
     = [Print (''$ (sudo) B='' @ [squote] @ ''x y'' @ [squote] @ '' A=1 ls -l ''
               @ [squote] @ ''my dir'' @ [squote]),
        Popen [''sudo'', ''-H'', ''ls'', ''-l'', ''my dir'']
          [(''HOME'', ''/root''), (''B'', ''x y''), (''A'', ''1'')]]\<close>
  using
    build_args_with_elevation [where cmd = "''ls *.c''" and env_vars = "[(''A'', ''1'')]"
      and task_env = "Some [(''B'', ''x y''), (''A'', ''0'')]" and sudo_user = "Some ''bob''"
      and env_vars' = "[]" and task_env' = None and task = "[(''B'', ''x y''), (''A'', ''0'')]"
      and cmd_line = "[]" and args = "[]" and popen = "\<lambda>a e. Exited 0" and environ = "[]"
      and pfx = "[]"]
    build_args_with_elevation [where cmd = \<open>''ls -l '' @ [squote] @ ''my dir'' @ [squote]\<close>
      and env_vars = "[(''A'', ''1'')]"
      and task_env = "Some [(''B'', ''x y''), (''A'', ''0'')]" and sudo_user = None
      and env_vars' = "[]" and task_env' = None and task = "[(''B'', ''x y''), (''A'', ''0'')]"
      and cmd_line = \<open>''A=1 ls -l "my dir"''\<close> and args = "[''sudo'', ''-H'', ''ls'', ''-l'', ''my dir'']"
      and popen = "\<lambda>a e. Exited 0" and environ = "[(''HOME'', ''/root'')]" and pfx = "[]"]
    build_args_with_elevation [where cmd = \<open>''ls -l "my dir"''\<close>
      and env_vars = "[(''A'', ''1'')]"
      and task_env = "Some [(''B'', ''x y''), (''A'', ''0'')]" and sudo_user = None
      and env_vars' = "[]" and task_env' = None and task = "[(''B'', ''x y''), (''A'', ''0'')]"
      and cmd_line = "[]" and args = "[]"
      and popen = "\<lambda>a e. Exited 0" and environ = "[]" and pfx = "[]"]
  by (simp add: spec_metacharacters_def shlex_eval parse_eval merge_env_def dict_update_def
      display_command_def replace_char_def)

section \<open>Language keys\<close>

lemma aliases_roundtrip:
  "\<forall>(a, k) \<in> set POLYGLOT_ALIASES.
      canonical_lang a = k \<and> canonical_lang k = k \<and> k \<in> fst ` set POLYGLOT_LANGS"
  by code_simp

lemma distinct_langs: "distinct (map fst POLYGLOT_LANGS)"
  by code_simp

text \<open>
  Claim C3, as the code has it. Every alias of the table canonicalizes to its canonical key,
  the canonical key canonicalizes to itself, and it is a key of the builder registry. For a
  hint that is not empty and whose canonical key is not registered, rendering raises
  \<open>PFExecutionError\<close>: its message names the canonical key and the hint, and its suggestion
  is \<^verbatim>\<open>Supported languages: \<close> followed by the registered keys, separated by commas. That
  list is sorted, without repetition, and holds exactly the keys of the registry. For an absent
  hint and for the empty hint rendering raises nothing and returns \<^verbatim>\<open>(None, None)\<close>.
\<close>

theorem canonical_lang_roundtrip:
  "(\<forall>(a, k) \<in> set POLYGLOT_ALIASES.
      canonical_lang a = k \<and> canonical_lang k = k \<and> k \<in> fst ` set POLYGLOT_LANGS)
   \<and> (h \<noteq> [] \<and> map_of POLYGLOT_LANGS (canonical_lang h) = None \<longrightarrow>
        render_polyglot_command fs (Some h) cmd wd
          = Inl (PFExecutionError
                   (''Language '' @ [squote] @ canonical_lang h @ [squote] @ '' (from '' @ [squote]
                      @ h @ [squote] @ '') has no builder registered'')
                   None None
                   (Some (''Supported languages: '' @ join '', '' supported_languages))))
   \<and> sorted supported_languages \<and> distinct supported_languages
   \<and> set supported_languages = fst ` set POLYGLOT_LANGS
   \<and> render_polyglot_command fs None cmd wd = Inr (None, None)
   \<and> render_polyglot_command fs (Some []) cmd wd = Inr (None, None)"
proof -
  have 2: "h \<noteq> [] \<and> map_of POLYGLOT_LANGS (canonical_lang h) = None \<longrightarrow>
        render_polyglot_command fs (Some h) cmd wd
          = Inl (PFExecutionError
                   (''Language '' @ [squote] @ canonical_lang h @ [squote] @ '' (from '' @ [squote]
                      @ h @ [squote] @ '') has no builder registered'')
                   None None
                   (Some (''Supported languages: '' @ join '', '' supported_languages)))"
    by (simp add: render_polyglot_command_def truthy_def)
  have 3: "sorted supported_languages \<and> distinct supported_languages
      \<and> set supported_languages = fst ` set POLYGLOT_LANGS"
    using distinct_langs by (simp add: supported_languages_def)
  have 4: "render_polyglot_command fs None cmd wd = Inr (None, None)
      \<and> render_polyglot_command fs (Some []) cmd wd = Inr (None, None)"
    by (simp add: render_polyglot_command_def truthy_def)
  show ?thesis using aliases_roundtrip 2 3 4 by blast
qed

lemma supported_languages_text:
  "join '', '' supported_languages = ''asm, bash, c, c-llvm, c-llvm-bc, cpp, cpp-llvm, cpp-llvm-bc, crystal, dart, dash, deno, elixir, fish, fortran, fortran-llvm, go, haskell, haskell-compile, java-android, java-openjdk, julia, ksh, lua, nim, node, ocaml, ocamlc, perl, php, pwsh, python, r, ruby, rust, sh, tcsh, ts-node, zig, zsh''"
  by code_simp

lemma cobol_not_registered:
  "canonical_lang ''COBOL '' = ''cobol''" "canonical_lang ''cobol'' = ''cobol''"
  "map_of POLYGLOT_LANGS ''cobol'' = None"
  by code_simp+

theorem canonical_lang_roundtrip_witness:
  "canonical_lang ''g++'' = ''cpp'' \<and> canonical_lang ''cpp'' = ''cpp''
   \<and> ''cpp'' \<in> fst ` set POLYGLOT_LANGS
   \<and> render_polyglot_command (\<lambda>p. None) (Some ''COBOL '') ''DISPLAY 1.'' None
       = Inl (PFExecutionError
                (''Language '' @ [squote] @ ''cobol'' @ [squote] @ '' (from '' @ [squote]
                   @ ''COBOL '' @ [squote] @ '') has no builder registered'')
                None None
                (Some ''Supported languages: asm, bash, c, c-llvm, c-llvm-bc, cpp, cpp-llvm, cpp-llvm-bc, crystal, dart, dash, deno, elixir, fish, fortran, fortran-llvm, go, haskell, haskell-compile, java-android, java-openjdk, julia, ksh, lua, nim, node, ocaml, ocamlc, perl, php, pwsh, python, r, ruby, rust, sh, tcsh, ts-node, zig, zsh''))
   \<and> render_polyglot_command (\<lambda>p. None) None ''DISPLAY 1.'' None = Inr (None, None)
   \<and> render_polyglot_command (\<lambda>p. None) (Some []) ''DISPLAY 1.'' None = Inr (None, None)"
proof -
  have a: "(''g++'', ''cpp'') \<in> set POLYGLOT_ALIASES"
    by (simp add: POLYGLOT_ALIASES_def)
  show ?thesis
    using canonical_lang_roundtrip [of "''COBOL ''" "\<lambda>p. None" "''DISPLAY 1.''" None] a
      cobol_not_registered supported_languages_text
    by (auto simp: squote_def)
qed

text \<open>
  Claim C3 as stated fails twice. For the empty hint the canonical key, the empty string, is
  not registered, and \<^verbatim>\<open>render_polyglot_command\<close> returns \<^verbatim>\<open>(None, None)\<close> without an error (the
  guard \<^verbatim>\<open>if not lang_hint\<close>). For the unregistered hint \<^verbatim>\<open>cobol\<close> the error is raised, but its
  message is \<^verbatim>\<open>Language 'cobol' (from 'cobol') has no builder registered\<close>, in which the
  registered key \<^verbatim>\<open>bash\<close> does not occur: the keys are listed in the suggestion, not in the
  message.
\<close>

theorem empty_hint_counterexample:
  "canonical_lang [] = [] \<and> map_of POLYGLOT_LANGS (canonical_lang []) = None
   \<and> render_polyglot_command (\<lambda>p. None) (Some []) ''print(1)'' None = Inr (None, None)
   \<and> map_of POLYGLOT_LANGS (canonical_lang ''cobol'') = None
   \<and> render_polyglot_command (\<lambda>p. None) (Some ''cobol'') ''DISPLAY 1.'' None
       = Inl (PFExecutionError
                (''Language '' @ [squote] @ ''cobol'' @ [squote] @ '' (from '' @ [squote]
                   @ ''cobol'' @ [squote] @ '') has no builder registered'')
                None None
                (Some ''Supported languages: asm, bash, c, c-llvm, c-llvm-bc, cpp, cpp-llvm, cpp-llvm-bc, crystal, dart, dash, deno, elixir, fish, fortran, fortran-llvm, go, haskell, haskell-compile, java-android, java-openjdk, julia, ksh, lua, nim, node, ocaml, ocamlc, perl, php, pwsh, python, r, ruby, rust, sh, tcsh, ts-node, zig, zsh''))
   \<and> ''bash'' \<in> set supported_languages
   \<and> \<not> py_in ''bash''
         (''Language '' @ [squote] @ ''cobol'' @ [squote] @ '' (from '' @ [squote]
            @ ''cobol'' @ [squote] @ '') has no builder registered'')"
proof -
  have e1: "canonical_lang [] = []"
    by (simp add: canonical_lang_def strip_def lower_def POLYGLOT_ALIASES_def)
  have e2: "map_of POLYGLOT_LANGS (canonical_lang []) = None"
    by (simp add: e1 POLYGLOT_LANGS_def)
  have e3: "render_polyglot_command (\<lambda>p. None) (Some []) ''print(1)'' None = Inr (None, None)"
    by (simp add: render_polyglot_command_def truthy_def)
  have m: "map_of POLYGLOT_LANGS (canonical_lang ''cobol'') = None"
    by (simp only: cobol_not_registered)
  have r: "render_polyglot_command (\<lambda>p. None) (Some ''cobol'') ''DISPLAY 1.'' None
       = Inl (PFExecutionError
                (''Language '' @ [squote] @ ''cobol'' @ [squote] @ '' (from '' @ [squote]
                   @ ''cobol'' @ [squote] @ '') has no builder registered'')
                None None
                (Some ''Supported languages: asm, bash, c, c-llvm, c-llvm-bc, cpp, cpp-llvm, cpp-llvm-bc, crystal, dart, dash, deno, elixir, fish, fortran, fortran-llvm, go, haskell, haskell-compile, java-android, java-openjdk, julia, ksh, lua, nim, node, ocaml, ocamlc, perl, php, pwsh, python, r, ruby, rust, sh, tcsh, ts-node, zig, zsh''))"
    by (simp add: render_polyglot_command_def truthy_def cobol_not_registered
        supported_languages_text)
  have b: "''bash'' \<in> set supported_languages"
    by (simp add: supported_languages_def POLYGLOT_LANGS_def)
  have n: "\<not> py_in ''bash''
         (''Language '' @ [squote] @ ''cobol'' @ [squote] @ '' (from '' @ [squote]
            @ ''cobol'' @ [squote] @ '') has no builder registered'')"
    by (simp add: startswith_def squote_def)
  show ?thesis by (intro conjI e1 e2 e3 m r b n)
qed

section \<open>Polyglot source extraction\<close>

text \<open>
  Claim C6, as the code has it, for a command that tokenizes. Without a token, or with a first
  token that starts with neither \<^verbatim>\<open>@\<close> nor \<^verbatim>\<open>file:\<close>, the command string itself is the source
  and there are no arguments. With a first token \<^verbatim>\<open>@p\<close> or \<^verbatim>\<open>file:p\<close>: a base directory that is
  missing or empty raises \<open>PFSyntaxError\<close> with a message that names no path, whether \<open>p\<close> is
  absolute or not; otherwise the path is \<open>p\<close> if it is absolute and \<open>p\<close> under the base
  directory if not, a path that does not exist raises \<open>PFSyntaxError\<close> naming it, and the
  contents of a file that can be read are the snippet, with the tokens after the first as
  arguments, less one leading \<^verbatim>\<open>--\<close>.
\<close>

theorem extract_polyglot_source_cases:
  assumes "shlex_split cmd = Inr tokens"
  shows "(tokens = [] \<longrightarrow> extract_polyglot_source fs cmd base_dir = Inr (cmd, [], None))
   \<and> (\<forall>t rest. tokens = t # rest \<and> \<not> startswith t ''@'' \<and> \<not> startswith t ''file:'' \<longrightarrow>
         extract_polyglot_source fs cmd base_dir = Inr (cmd, [], None))
   \<and> (\<forall>p rest. tokens = (''@'' @ p) # rest \<or> tokens = (''file:'' @ p) # rest \<longrightarrow>
         extract_polyglot_source fs cmd base_dir =
           (case base_dir of
              None \<Rightarrow>
                Inl (PFSyntaxError
                       ''Cannot resolve polyglot source file: no base directory available''
                       None (Some ''Ensure the Pfyfile is in a valid directory''))
            | Some b \<Rightarrow>
                if b = [] then
                  Inl (PFSyntaxError
                         ''Cannot resolve polyglot source file: no base directory available''
                         None (Some ''Ensure the Pfyfile is in a valid directory''))
                else
                  (let full_path = (if startswith p ''/'' then p
                                    else if endswith b ''/'' then b @ p
                                    else b @ ''/'' @ p)
                   in case fs full_path of
                        None \<Rightarrow>
                          Inl (PFSyntaxError (''Polyglot source file not found: '' @ full_path)
                                 (Some full_path)
                                 (Some ''Check that the file path is correct and the file exists''))
                      | Some (RegularFile code) \<Rightarrow>
                          Inr (code,
                               (case rest of [] \<Rightarrow> []
                                | r # rs \<Rightarrow> if r = ''--'' then rs else rest),
                               Some full_path)
                      | Some (Unreadable m) \<Rightarrow> Inl (OtherError m))))"
proof -
  have 1: "tokens = [] \<longrightarrow> extract_polyglot_source fs cmd base_dir = Inr (cmd, [], None)"
    using assms by (simp add: extract_polyglot_source_def)
  have 2: "\<forall>t rest. tokens = t # rest \<and> \<not> startswith t ''@'' \<and> \<not> startswith t ''file:'' \<longrightarrow>
         extract_polyglot_source fs cmd base_dir = Inr (cmd, [], None)"
    using assms by (auto simp: extract_polyglot_source_def)
  have pre_at: "startswith (''@'' @ p) ''@''" "drop 1 (''@'' @ p) = p" for p
    by (simp_all add: startswith_def)
  have pre_file: "startswith (''file:'' @ p) ''file:''" "\<not> startswith (''file:'' @ p) ''@''"
    "drop 5 (''file:'' @ p) = p" for p
    by (simp_all add: startswith_def)
  have 3: "extract_polyglot_source fs cmd base_dir =
           (case base_dir of
              None \<Rightarrow>
                Inl (PFSyntaxError
                       ''Cannot resolve polyglot source file: no base directory available''
                       None (Some ''Ensure the Pfyfile is in a valid directory''))
            | Some b \<Rightarrow>
                if b = [] then
                  Inl (PFSyntaxError
                         ''Cannot resolve polyglot source file: no base directory available''
                         None (Some ''Ensure the Pfyfile is in a valid directory''))
                else
                  (let full_path = (if startswith p ''/'' then p
                                    else if endswith b ''/'' then b @ p
                                    else b @ ''/'' @ p)
                   in case fs full_path of
                        None \<Rightarrow>
                          Inl (PFSyntaxError (''Polyglot source file not found: '' @ full_path)
                                 (Some full_path)
                                 (Some ''Check that the file path is correct and the file exists''))
                      | Some (RegularFile code) \<Rightarrow>
                          Inr (code,
                               (case rest of [] \<Rightarrow> []
                                | r # rs \<Rightarrow> if r = ''--'' then rs else rest),
                               Some full_path)
                      | Some (Unreadable m) \<Rightarrow> Inl (OtherError m)))"
    if "tokens = (''@'' @ p) # rest \<or> tokens = (''file:'' @ p) # rest" for p rest
    using that
  proof
    assume "tokens = (''@'' @ p) # rest"
    then show ?thesis
      using assms pre_at [of p]
      by (simp add: extract_polyglot_source_def truthy_def isabs_def path_join_def Let_def
          split: option.splits fs_entry.splits list.splits)
  next
    assume "tokens = (''file:'' @ p) # rest"
    then show ?thesis
      using assms pre_file [of p]
      by (simp add: extract_polyglot_source_def truthy_def isabs_def path_join_def Let_def
          split: option.splits fs_entry.splits list.splits)
  qed
  show ?thesis using 1 2 3 by blast
qed


lemma split_file_reference:
  "shlex_split ''@Main.java -- a b'' = Inr [''@Main.java'', ''--'', ''a'', ''b'']"
  by (simp add: shlex_eval)

theorem extract_polyglot_source_cases_witness:
  "extract_polyglot_source
      (\<lambda>p. if p = ''/w/Main.java'' then Some (RegularFile ''class Main {}'') else None)
      ''@Main.java -- a b'' (Some ''/w'')
     = Inr (''class Main {}'', [''a'', ''b''], Some ''/w/Main.java'')
   \<and> extract_polyglot_source (\<lambda>p. None) ''@Main.java -- a b'' (Some ''/w'')
     = Inl (PFSyntaxError ''Polyglot source file not found: /w/Main.java''
              (Some ''/w/Main.java'')
              (Some ''Check that the file path is correct and the file exists''))"
  using extract_polyglot_source_cases [OF split_file_reference,
      of "\<lambda>p. if p = ''/w/Main.java'' then Some (RegularFile ''class Main {}'') else None"
        "Some ''/w''"]
    extract_polyglot_source_cases [OF split_file_reference, of "\<lambda>p. None" "Some ''/w''"]
  by (simp add: startswith_def endswith_def Let_def)

text \<open>
  Claim C6 as stated fails: the reference \<^verbatim>\<open>@/abs/x.py\<close> is absolute and its file exists, so
  no base directory is required, yet without a base directory the call raises, and the error
  names no path.
\<close>

theorem absolute_reference_counterexample:
  "shlex_split ''@/abs/x.py'' = Inr [''@/abs/x.py'']
   \<and> isabs ''/abs/x.py''
   \<and> extract_polyglot_source
        (\<lambda>p. if p = ''/abs/x.py'' then Some (RegularFile ''print(1)'') else None)
        ''@/abs/x.py'' None
     = Inl (PFSyntaxError ''Cannot resolve polyglot source file: no base directory available''
              None (Some ''Ensure the Pfyfile is in a valid directory''))"
  by (simp add: shlex_eval extract_polyglot_source_def truthy_def isabs_def startswith_def)

section \<open>Rendering twice\<close>

lemma builder_starts_with_mktemp:
  "builder b code args = Inr script \<Longrightarrow> startswith script ''tmpdir=$(mktemp -d)\<newline>''"
  by (cases b)
     (auto simp: builder_def build_script_command_def build_compile_command_def
        compile_script_def java_android_script_def startswith_def Let_def
        split: sum.splits)

text \<open>
  Claim C8. Two calls of \<^verbatim>\<open>render_polyglot_command\<close> return the same result whenever their
  hints have the same canonical language (the same hint, or two spellings of a registered
  language) and their commands resolve to the same snippet and arguments, whatever the file
  systems, commands and working directories are: the result is a function of language, snippet
  and arguments. Every script rendered starts with \<^verbatim>\<open>tmpdir=$(mktemp -d)\<close>, so the name of
  the temporary directory is made when the script runs and is no part of the rendered text.
\<close>

theorem render_depends_on_language_snippet_args:
  assumes "h1 \<noteq> []" and "h2 \<noteq> []" and "canonical_lang h1 = canonical_lang h2"
    and "h1 = h2 \<or> map_of POLYGLOT_LANGS (canonical_lang h1) \<noteq> None"
    and "extract_polyglot_source fs1 cmd1 wd1 = Inr (snippet, args, path1)"
    and "extract_polyglot_source fs2 cmd2 wd2 = Inr (snippet, args, path2)"
  shows "render_polyglot_command fs1 (Some h1) cmd1 wd1
           = render_polyglot_command fs2 (Some h2) cmd2 wd2
     \<and> (\<forall>script key. render_polyglot_command fs1 (Some h1) cmd1 wd1 = Inr (Some script, key)
           \<longrightarrow> startswith script ''tmpdir=$(mktemp -d)\<newline>'')"
proof -
  have "render_polyglot_command fs1 (Some h1) cmd1 wd1
           = render_polyglot_command fs2 (Some h2) cmd2 wd2"
  proof (cases "map_of POLYGLOT_LANGS (canonical_lang h1)")
    case None
    then have "h1 = h2" using assms(4) by simp
    then show ?thesis
      using None assms(1) by (simp add: render_polyglot_command_def truthy_def)
  next
    case (Some b)
    then show ?thesis
      using assms by (simp add: render_polyglot_command_def truthy_def)
  qed
  moreover have "startswith script ''tmpdir=$(mktemp -d)\<newline>''"
    if "render_polyglot_command fs1 (Some h1) cmd1 wd1 = Inr (Some script, key)" for script key
    using that assms(1,5) builder_starts_with_mktemp
    by (auto simp: render_polyglot_command_def truthy_def Let_def
        split: option.splits sum.splits)
  ultimately show ?thesis by blast
qed


theorem render_depends_on_language_snippet_args_witness:
  "render_polyglot_command (\<lambda>p. None) (Some ''py'') ''print(1)'' None
     = render_polyglot_command
         (\<lambda>p. if p = ''/w/a.py'' then Some (RegularFile ''print(1)'') else None)
         (Some ''python3'') ''@a.py'' (Some ''/w'')
   \<and> (\<exists>script. render_polyglot_command (\<lambda>p. None) (Some ''py'') ''print(1)'' None
          = Inr (Some script, Some ''python'')
        \<and> startswith script ''tmpdir=$(mktemp -d)\<newline>'')"
proof -
  have c: "canonical_lang ''py'' = ''python''" "canonical_lang ''python3'' = ''python''"
    by code_simp+
  have r: "map_of POLYGLOT_LANGS ''python'' = Some (ScriptProfile [''python3''] ''.py'' ''pf_poly'')"
    by code_simp
  have e1: "extract_polyglot_source (\<lambda>p. None) ''print(1)'' None = Inr (''print(1)'', [], None)"
    by (simp add: extract_polyglot_source_def shlex_eval startswith_def)
  have e2: "extract_polyglot_source
       (\<lambda>p. if p = ''/w/a.py'' then Some (RegularFile ''print(1)'') else None) ''@a.py''
       (Some ''/w'') = Inr (''print(1)'', [], Some ''/w/a.py'')"
    by (simp add: extract_polyglot_source_def shlex_eval startswith_def endswith_def truthy_def
        isabs_def path_join_def)
  have "\<exists>script. render_polyglot_command (\<lambda>p. None) (Some ''py'') ''print(1)'' None
      = Inr (Some script, Some ''python'')"
    by (simp add: render_polyglot_command_def truthy_def c r e1 builder_def)
  then show ?thesis
    using render_depends_on_language_snippet_args [of "''py''" "''python3''" "\<lambda>p. None"
        "''print(1)''" None "''print(1)''" "[]" None
        "\<lambda>p. if p = ''/w/a.py'' then Some (RegularFile ''print(1)'') else None" "''@a.py''"
        "Some ''/w''" "Some ''/w/a.py''"] c r e1 e2
    by auto
qed


section \<open>Parallel batches\<close>

lemma foldl_collect_result:
  "foldl collect_result (err, r) outs
     = (err @ concat (map outcome_stderr outs),
        if r \<noteq> 0 then r
        else case filter (\<lambda>out. outcome_rc out \<noteq> 0) outs of [] \<Rightarrow> 0 | out # _ \<Rightarrow> outcome_rc out)"
  by (induction outs arbitrary: err r) (auto simp: collect_result_def)

lemma completed_futures:
  assumes "mset completion = mset [0..<length futures]"
  shows "mset (map (\<lambda>i. futures ! i) completion) = mset futures"
proof -
  have "mset (map (\<lambda>i. futures ! i) completion) = image_mset (\<lambda>i. futures ! i) (mset completion)"
    by simp
  also have "\<dots> = mset (map (\<lambda>i. futures ! i) [0..<length futures])"
    by (simp add: assms)
  also have "\<dots> = mset futures"
    by (simp add: map_nth)
  finally show ?thesis .
qed

lemma mset_concat_map: "mset (concat (map g xs)) = (\<Sum>x\<in>#mset xs. mset (g x))"
  by (induction xs) simp_all

lemma first_nonzero:
  "(case filter (\<lambda>out. outcome_rc out \<noteq> 0) outs of [] \<Rightarrow> 0 | out # _ \<Rightarrow> outcome_rc out) \<noteq> 0
     \<longleftrightarrow> (\<exists>out \<in> set outs. outcome_rc out \<noteq> 0)"
proof (cases "filter (\<lambda>out. outcome_rc out \<noteq> 0) outs")
  case Nil
  then show ?thesis by (auto simp: filter_empty_conv)
next
  case (Cons a list)
  then have "a \<in> set (filter (\<lambda>out. outcome_rc out \<noteq> 0) outs)" by simp
  then have "a \<in> set outs" "outcome_rc a \<noteq> 0" by simp_all
  then show ?thesis using Cons by auto
qed

text \<open>
  Claim C4. For a pool size of at least one and every order of completion (every permutation
  of the positions of the tasks), \<^verbatim>\<open>execute_parallel_tasks\<close> returns, and it returns a code that
  is not zero exactly when some task's outcome is not zero (a task that raises counts as 1),
  hence zero exactly when all outcomes are zero. Every task is submitted whatever the outcomes
  of the others are, and every failure is collected: the lines on standard error are those of
  all the tasks that raised.
\<close>

theorem parallel_batch_exit_code:
  assumes "0 < max_workers" and "mset completion = mset [0..<length tasks]"
  shows "\<exists>err rc. execute_parallel_tasks run_task completion tasks max_workers
              = Inr (tasks, err, rc)
     \<and> (rc \<noteq> 0 \<longleftrightarrow> (\<exists>t \<in> set tasks. outcome_rc (run_task t) \<noteq> 0))
     \<and> (rc = 0 \<longleftrightarrow> (\<forall>t \<in> set tasks. outcome_rc (run_task t) = 0))
     \<and> mset err = mset (concat (map (\<lambda>t. outcome_stderr (run_task t)) tasks))"
proof (cases "tasks = []")
  case True
  then show ?thesis by (simp add: execute_parallel_tasks_def)
next
  case False
  let ?futures = "map run_task tasks"
  let ?outs = "map (\<lambda>i. ?futures ! i) completion"
  let ?rc = "case filter (\<lambda>out. outcome_rc out \<noteq> 0) ?outs of [] \<Rightarrow> 0 | out # _ \<Rightarrow> outcome_rc out"
  have m: "mset ?outs = mset ?futures"
    using assms(2) by (intro completed_futures) simp
  then have s: "set ?outs = set ?futures"
    by (rule mset_eq_setD)
  have run: "execute_parallel_tasks run_task completion tasks max_workers
      = Inr (tasks, concat (map outcome_stderr ?outs), ?rc)"
    using False assms(1) by (simp add: execute_parallel_tasks_def foldl_collect_result Let_def)
  have nz: "?rc \<noteq> 0 \<longleftrightarrow> (\<exists>t \<in> set tasks. outcome_rc (run_task t) \<noteq> 0)"
    unfolding first_nonzero s by auto
  have "mset (concat (map outcome_stderr ?outs)) = mset (concat (map outcome_stderr ?futures))"
    by (simp only: mset_concat_map m)
  then have e: "mset (concat (map outcome_stderr ?outs))
      = mset (concat (map (\<lambda>t. outcome_stderr (run_task t)) tasks))"
    by (simp add: comp_def)
  show ?thesis using run nz e by auto
qed

theorem parallel_batch_exit_code_witness:
  "execute_parallel_tasks
      (\<lambda>t. if t = ''lint'' then Returned 3 else if t = ''test'' then RaisedException ''boom''
            else Returned 0)
      [2, 0, 1] [''build'', ''test'', ''lint''] 4
     = Inr ([''build'', ''test'', ''lint''], [''boom''], 3)
   \<and> execute_parallel_tasks
      (\<lambda>t. if t = ''lint'' then Returned 3 else if t = ''test'' then RaisedException ''boom''
            else Returned 0)
      [1, 2, 0] [''build'', ''test'', ''lint''] 4
     = Inr ([''build'', ''test'', ''lint''], [''boom''], 1)
   \<and> execute_parallel_tasks (\<lambda>t. Returned 0) [1, 0] [''build'', ''test''] 4
     = Inr ([''build'', ''test''], [], 0)"
  using parallel_batch_exit_code [of 4 "[2, 0, 1]" "[''build'', ''test'', ''lint'']"
      "\<lambda>t. if t = ''lint'' then Returned 3 else if t = ''test'' then RaisedException ''boom''
            else Returned 0"]
    parallel_batch_exit_code [of 4 "[1, 2, 0]" "[''build'', ''test'', ''lint'']"
      "\<lambda>t. if t = ''lint'' then Returned 3 else if t = ''test'' then RaisedException ''boom''
            else Returned 0"]
    parallel_batch_exit_code [of 4 "[1, 0]" "[''build'', ''test'']" "\<lambda>t. Returned 0"]
  by (simp add: execute_parallel_tasks_def collect_result_def outcome_rc_def outcome_stderr_def)


section \<open>Compiled-language payloads\<close>













text \<open>
  The run template of \<^verbatim>\<open>java-openjdk\<close>, \<^verbatim>\<open>(cd {classes} && java Main{args})\<close>, has no space before
  its arguments (the builder of \<^verbatim>\<open>java-android\<close> puts one): the argument \<^verbatim>\<open>foo\<close> becomes part of
  the class name.
\<close>

lemma java_openjdk_arguments_glued:
  \<open>map_of POLYGLOT_LANGS ''java-openjdk'' = Some java_openjdk_builder
   \<and> builder java_openjdk_builder ''class Main {}'' [''foo'']
     = Inr (''tmpdir=$(mktemp -d)\<newline>''
          @ ''src="$tmpdir/Main.java"\<newline>''
          @ ''bin="$tmpdir/pf_poly_bin"\<newline>''
          @ ''classes="$tmpdir/classes"\<newline>''
          @ ''mkdir -p "$classes"\<newline>''
          @ ''cat <<'' @ [squote] @ ''__PFY_LANG__'' @ [squote] @ '' > "$src"\<newline>''
          @ ''class Main {}\<newline>''
          @ ''__PFY_LANG__\<newline>''
          @ ''javac -d "$classes" "$src"\<newline>''
          @ ''rc=$?\<newline>''
          @ ''if [ $rc -eq 0 ]; then\<newline>''
          @ ''  (cd "$classes" && java Mainfoo)\<newline>''
          @ ''  rc=$?\<newline>''
          @ ''fi\<newline>''
          @ ''rm -rf "$tmpdir"\<newline>''
          @ ''exit $rc\<newline>'')\<close>
  by (simp add: POLYGLOT_LANGS_def java_openjdk_builder_def builder_def build_compile_command_def compile_script_def py_format_def placeholder_mapping_def POLY_DELIM_def poly_args_def shlex_quote_def safe_char_def word_char_def replace_char_def squote_def dquote_def ensure_newline_def endswith_def Let_def)


end
